theory Spec2Isabelle
  imports Main "HOL-Library.Word"
begin

section \<open>Schema: enumerated types and table rows\<close>

text \<open>
  The schema of \<^verbatim>\<open>supabase/migrations/20251122044502_*.sql\<close>. A table row is a record, a
  \<^verbatim>\<open>NOT NULL\<close> column has its plain type and a nullable column an \<open>option\<close> (\<open>None\<close> is SQL
  \<^verbatim>\<open>NULL\<close>). A \<^verbatim>\<open>UUID\<close> is a 128-bit word, a \<^verbatim>\<open>TIMESTAMPTZ\<close> the number of microseconds since
  the epoch, a \<^verbatim>\<open>DATE\<close> a day number, and a \<^verbatim>\<open>NUMERIC(10,2)\<close> the integer number of
  hundredths (so \<open>5000\<close> is 50.00). A table is the list of its rows in insertion order.
\<close>

type_synonym uuid = "128 word"
type_synonym timestamptz = nat
type_synonym date = nat
type_synonym numeric_10_2 = int

datatype app_role = Admin | Manager | Staff
datatype stock_status = Draft | Waiting | Ready | Done | Canceled
datatype movement_type = Receipt | Delivery | Transfer | Adjustment

text \<open>
  \<^verbatim>\<open>auth.users\<close> belongs to the hosted authentication service; only the columns that the
  migration reads are kept. A JSON value is either \<^verbatim>\<open>null\<close>, a string, or some other value
  that is represented by its text; \<^verbatim>\<open>raw_user_meta_data\<close> is a JSON object (an association
  list) or SQL \<^verbatim>\<open>NULL\<close>.
\<close>

datatype json_value = JNull | JString string | JOther string

record auth_users_row =
  au_id :: uuid
  au_email :: "string option"
  au_raw_user_meta_data :: "(string \<times> json_value) list option"

record profiles_row =
  pf_id :: uuid
  pf_full_name :: string
  pf_email :: string
  pf_created_at :: timestamptz
  pf_updated_at :: timestamptz

record user_roles_row =
  ur_id :: uuid
  ur_user_id :: uuid
  ur_role :: app_role
  ur_created_at :: timestamptz

record warehouses_row =
  wh_id :: uuid
  wh_name :: string
  wh_code :: string
  wh_address :: "string option"
  wh_is_active :: bool
  wh_created_at :: timestamptz
  wh_updated_at :: timestamptz

record categories_row =
  cat_id :: uuid
  cat_name :: string
  cat_description :: "string option"
  cat_created_at :: timestamptz
  cat_updated_at :: timestamptz

record products_row =
  pd_id :: uuid
  pd_name :: string
  pd_sku :: string
  pd_category_id :: "uuid option"
  pd_unit_of_measure :: string
  pd_reorder_level :: "numeric_10_2 option"
  pd_description :: "string option"
  pd_is_active :: bool
  pd_created_at :: timestamptz
  pd_updated_at :: timestamptz

record receipts_row =
  rc_id :: uuid
  rc_reference :: string
  rc_warehouse_id :: uuid
  rc_supplier_name :: string
  rc_status :: stock_status
  rc_scheduled_date :: "date option"
  rc_received_date :: "timestamptz option"
  rc_notes :: "string option"
  rc_created_by :: "uuid option"
  rc_created_at :: timestamptz
  rc_updated_at :: timestamptz

record receipt_lines_row =
  rl_id :: uuid
  rl_receipt_id :: uuid
  rl_product_id :: uuid
  rl_quantity :: numeric_10_2
  rl_received_quantity :: "numeric_10_2 option"
  rl_created_at :: timestamptz

record deliveries_row =
  dv_id :: uuid
  dv_reference :: string
  dv_warehouse_id :: uuid
  dv_customer_name :: string
  dv_status :: stock_status
  dv_scheduled_date :: "date option"
  dv_delivered_date :: "timestamptz option"
  dv_notes :: "string option"
  dv_created_by :: "uuid option"
  dv_created_at :: timestamptz
  dv_updated_at :: timestamptz

record delivery_lines_row =
  dl_id :: uuid
  dl_delivery_id :: uuid
  dl_product_id :: uuid
  dl_quantity :: numeric_10_2
  dl_delivered_quantity :: "numeric_10_2 option"
  dl_created_at :: timestamptz

record stock_movements_row =
  sm_id :: uuid
  sm_product_id :: uuid
  sm_warehouse_id :: uuid
  sm_movement_type :: movement_type
  sm_reference_id :: "uuid option"
  sm_quantity :: numeric_10_2
  sm_balance_after :: numeric_10_2
  sm_notes :: "string option"
  sm_created_by :: "uuid option"
  sm_created_at :: timestamptz

record db =
  auth_users :: "auth_users_row list"
  profiles :: "profiles_row list"
  user_roles :: "user_roles_row list"
  warehouses :: "warehouses_row list"
  categories :: "categories_row list"
  products :: "products_row list"
  receipts :: "receipts_row list"
  receipt_lines :: "receipt_lines_row list"
  deliveries :: "deliveries_row list"
  delivery_lines :: "delivery_lines_row list"
  stock_movements :: "stock_movements_row list"

section \<open>Statements, errors and callers\<close>

text \<open>
  A statement either fails with an error and changes nothing, or returns the new database.
  The errors are the SQLSTATE conditions the schema can raise; each carries the name of the
  table, column or constraint concerned.
\<close>

datatype pg_error =
    InsufficientPrivilege string
  | NotNullViolation string
  | UniqueViolation string
  | ForeignKeyViolation string
  | CheckViolation string
  | NumericValueOutOfRange string
  | InvalidTextRepresentation string

definition state_after :: "db \<Rightarrow> pg_error + db \<Rightarrow> db" where
  "state_after s r = (case r of Inl e \<Rightarrow> s | Inr s' \<Rightarrow> s')"

text \<open>
  A caller of the data API runs as one of the two database roles that are subject to
  row-level security, and \<^verbatim>\<open>auth.uid()\<close> is the identity of its session, or \<^verbatim>\<open>NULL\<close>.
\<close>

datatype pg_role = anon | authenticated

record caller =
  pg_role :: pg_role
  jwt_sub :: "uuid option"

definition auth_uid :: "caller \<Rightarrow> uuid option" where
  "auth_uid c = jwt_sub c"

section \<open>SQL's three-valued logic\<close>

type_synonym sql_bool = "bool option"

definition sql_eq :: "'a option \<Rightarrow> 'a option \<Rightarrow> sql_bool" where
  "sql_eq a b = (case a of None \<Rightarrow> None | Some x \<Rightarrow> (case b of None \<Rightarrow> None | Some y \<Rightarrow> Some (x = y)))"

definition sql_or :: "sql_bool \<Rightarrow> sql_bool \<Rightarrow> sql_bool" where
  "sql_or a b =
     (if a = Some True \<or> b = Some True then Some True
      else if a = Some False \<and> b = Some False then Some False
      else None)"

definition sql_and :: "sql_bool \<Rightarrow> sql_bool \<Rightarrow> sql_bool" where
  "sql_and a b =
     (if a = Some False \<or> b = Some False then Some False
      else if a = Some True \<and> b = Some True then Some True
      else None)"

definition sql_is_not_null :: "'a option \<Rightarrow> sql_bool" where
  "sql_is_not_null a = Some (a \<noteq> None)"

definition sql_true :: sql_bool where
  "sql_true = Some True"

text \<open>
  \<^verbatim>\<open>public.has_role(_user_id, _role)\<close>: an \<^verbatim>\<open>EXISTS\<close> over \<^verbatim>\<open>user_roles\<close>. It is
  \<^verbatim>\<open>SECURITY DEFINER\<close>, so it reads the whole table whoever calls it; \<^verbatim>\<open>EXISTS\<close> is never
  \<^verbatim>\<open>NULL\<close>, and a row is counted only when its \<^verbatim>\<open>WHERE\<close> condition is true.
\<close>

definition has_role :: "db \<Rightarrow> uuid option \<Rightarrow> app_role \<Rightarrow> sql_bool" where
  "has_role s user_id_arg role_arg =
     Some (list_ex
       (\<lambda>r. sql_and (sql_eq (Some (ur_user_id r)) user_id_arg)
                     (sql_eq (Some (ur_role r)) (Some role_arg)) = Some True)
       (user_roles s))"

section \<open>Row-level security\<close>

text \<open>
  A policy is for one command (or \<^verbatim>\<open>ALL\<close>), is granted to \<^verbatim>\<open>PUBLIC\<close> or to one role, and has a
  \<^verbatim>\<open>USING\<close> expression, a \<^verbatim>\<open>WITH CHECK\<close> expression, or both. Every table of the schema has
  row-level security enabled, and all policies are permissive: a row passes when some
  policy that applies to the command and the caller's role evaluates to true on it (not
  false, not \<^verbatim>\<open>NULL\<close>), and no row passes when no policy applies. Where \<^verbatim>\<open>WITH CHECK\<close> is
  omitted the \<^verbatim>\<open>USING\<close> expression is checked on the new row as well.
\<close>

datatype pg_cmd = FOR_SELECT | FOR_INSERT | FOR_UPDATE | FOR_DELETE | FOR_ALL
datatype policy_to = TO_PUBLIC | TO pg_role

record 'r policy =
  p_name :: string
  p_cmd :: pg_cmd
  p_to :: policy_to
  p_using :: "(caller \<Rightarrow> db \<Rightarrow> 'r \<Rightarrow> sql_bool) option"
  p_with_check :: "(caller \<Rightarrow> db \<Rightarrow> 'r \<Rightarrow> sql_bool) option"

definition policy_applies :: "'r policy \<Rightarrow> pg_cmd \<Rightarrow> caller \<Rightarrow> bool" where
  "policy_applies p cmd c =
     ((p_cmd p = cmd \<or> p_cmd p = FOR_ALL) \<and>
      (case p_to p of TO_PUBLIC \<Rightarrow> True | TO role \<Rightarrow> role = pg_role c))"

definition using_passes :: "'r policy list \<Rightarrow> pg_cmd \<Rightarrow> caller \<Rightarrow> db \<Rightarrow> 'r \<Rightarrow> bool" where
  "using_passes pols cmd c s r =
     list_ex (\<lambda>p. policy_applies p cmd c \<and>
                  (case p_using p of None \<Rightarrow> False | Some e \<Rightarrow> e c s r = Some True)) pols"

definition check_passes :: "'r policy list \<Rightarrow> pg_cmd \<Rightarrow> caller \<Rightarrow> db \<Rightarrow> 'r \<Rightarrow> bool" where
  "check_passes pols cmd c s r =
     list_ex (\<lambda>p. policy_applies p cmd c \<and>
                  (case p_with_check p of
                     Some e \<Rightarrow> e c s r = Some True
                   | None \<Rightarrow> (case p_using p of None \<Rightarrow> False | Some e \<Rightarrow> e c s r = Some True)))
             pols"

text \<open>
  The rows a statement acts on. A \<^verbatim>\<open>SELECT\<close> returns the rows that pass the \<^verbatim>\<open>SELECT\<close>
  policies. An \<^verbatim>\<open>UPDATE\<close> or \<^verbatim>\<open>DELETE\<close> with a \<^verbatim>\<open>WHERE\<close> clause acts on the rows that match
  the clause, pass the \<^verbatim>\<open>SELECT\<close> policies (the clause reads them) and pass the command's own
  \<^verbatim>\<open>USING\<close> policies; the other rows are skipped silently, with no error. A new row (of an
  \<^verbatim>\<open>INSERT\<close>, or the new version of an updated row) that fails the check raises an error
  instead.
\<close>

definition rls_select :: "'r policy list \<Rightarrow> caller \<Rightarrow> db \<Rightarrow> 'r list \<Rightarrow> 'r list" where
  "rls_select pols c s rows = filter (using_passes pols FOR_SELECT c s) rows"

definition rls_target :: "'r policy list \<Rightarrow> pg_cmd \<Rightarrow> caller \<Rightarrow> db \<Rightarrow> ('r \<Rightarrow> bool) \<Rightarrow> 'r \<Rightarrow> bool" where
  "rls_target pols cmd c s wh r =
     (wh r \<and> using_passes pols FOR_SELECT c s r \<and> using_passes pols cmd c s r)"

definition rls_insert_check :: "'r policy list \<Rightarrow> caller \<Rightarrow> db \<Rightarrow> 'r \<Rightarrow> bool" where
  "rls_insert_check pols c s r = check_passes pols FOR_INSERT c s r"

definition rls_update_check :: "'r policy list \<Rightarrow> caller \<Rightarrow> db \<Rightarrow> 'r \<Rightarrow> bool" where
  "rls_update_check pols c s r =
     (check_passes pols FOR_UPDATE c s r \<and> using_passes pols FOR_SELECT c s r)"

section \<open>The policies of the migration\<close>

definition profiles_policies :: "profiles_row policy list" where
  "profiles_policies =
     [\<lparr>p_name = ''Users can view own profile'', p_cmd = FOR_SELECT, p_to = TO_PUBLIC,
       p_using = Some (\<lambda>c s r. sql_eq (auth_uid c) (Some (pf_id r))), p_with_check = None\<rparr>,
      \<lparr>p_name = ''Users can update own profile'', p_cmd = FOR_UPDATE, p_to = TO_PUBLIC,
       p_using = Some (\<lambda>c s r. sql_eq (auth_uid c) (Some (pf_id r))), p_with_check = None\<rparr>]"

definition user_roles_policies :: "user_roles_row policy list" where
  "user_roles_policies =
     [\<lparr>p_name = ''Admins can view all roles'', p_cmd = FOR_SELECT, p_to = TO_PUBLIC,
       p_using = Some (\<lambda>c s r. has_role s (auth_uid c) Admin), p_with_check = None\<rparr>,
      \<lparr>p_name = ''Admins can insert roles'', p_cmd = FOR_INSERT, p_to = TO_PUBLIC,
       p_using = None, p_with_check = Some (\<lambda>c s r. has_role s (auth_uid c) Admin)\<rparr>,
      \<lparr>p_name = ''Admins can delete roles'', p_cmd = FOR_DELETE, p_to = TO_PUBLIC,
       p_using = Some (\<lambda>c s r. has_role s (auth_uid c) Admin), p_with_check = None\<rparr>]"

definition warehouses_policies :: "warehouses_row policy list" where
  "warehouses_policies =
     [\<lparr>p_name = ''Authenticated users can view warehouses'', p_cmd = FOR_SELECT,
       p_to = TO authenticated, p_using = Some (\<lambda>c s r. sql_true), p_with_check = None\<rparr>,
      \<lparr>p_name = ''Admins can insert warehouses'', p_cmd = FOR_INSERT, p_to = TO_PUBLIC,
       p_using = None, p_with_check = Some (\<lambda>c s r. has_role s (auth_uid c) Admin)\<rparr>,
      \<lparr>p_name = ''Admins can update warehouses'', p_cmd = FOR_UPDATE, p_to = TO_PUBLIC,
       p_using = Some (\<lambda>c s r. has_role s (auth_uid c) Admin), p_with_check = None\<rparr>]"

definition categories_policies :: "categories_row policy list" where
  "categories_policies =
     [\<lparr>p_name = ''Authenticated users can view categories'', p_cmd = FOR_SELECT,
       p_to = TO authenticated, p_using = Some (\<lambda>c s r. sql_true), p_with_check = None\<rparr>,
      \<lparr>p_name = ''Admins can manage categories'', p_cmd = FOR_ALL, p_to = TO_PUBLIC,
       p_using = Some (\<lambda>c s r. has_role s (auth_uid c) Admin), p_with_check = None\<rparr>]"

definition products_policies :: "products_row policy list" where
  "products_policies =
     [\<lparr>p_name = ''Authenticated users can view products'', p_cmd = FOR_SELECT,
       p_to = TO authenticated, p_using = Some (\<lambda>c s r. sql_true), p_with_check = None\<rparr>,
      \<lparr>p_name = ''Managers and admins can insert products'', p_cmd = FOR_INSERT,
       p_to = TO_PUBLIC, p_using = None,
       p_with_check = Some (\<lambda>c s r. sql_or (has_role s (auth_uid c) Admin)
                                            (has_role s (auth_uid c) Manager))\<rparr>,
      \<lparr>p_name = ''Managers and admins can update products'', p_cmd = FOR_UPDATE,
       p_to = TO_PUBLIC,
       p_using = Some (\<lambda>c s r. sql_or (has_role s (auth_uid c) Admin)
                                       (has_role s (auth_uid c) Manager)),
       p_with_check = None\<rparr>]"

definition receipts_policies :: "receipts_row policy list" where
  "receipts_policies =
     [\<lparr>p_name = ''Authenticated users can view receipts'', p_cmd = FOR_SELECT,
       p_to = TO authenticated, p_using = Some (\<lambda>c s r. sql_true), p_with_check = None\<rparr>,
      \<lparr>p_name = ''Staff can create receipts'', p_cmd = FOR_INSERT, p_to = TO_PUBLIC,
       p_using = None, p_with_check = Some (\<lambda>c s r. sql_is_not_null (auth_uid c))\<rparr>,
      \<lparr>p_name = ''Staff can update own receipts or managers/admins can update all'',
       p_cmd = FOR_UPDATE, p_to = TO_PUBLIC,
       p_using = Some (\<lambda>c s r. sql_or (sql_or (sql_eq (rc_created_by r) (auth_uid c))
                                               (has_role s (auth_uid c) Admin))
                                       (has_role s (auth_uid c) Manager)),
       p_with_check = None\<rparr>]"

definition receipt_lines_policies :: "receipt_lines_row policy list" where
  "receipt_lines_policies =
     [\<lparr>p_name = ''Authenticated users can view receipt lines'', p_cmd = FOR_SELECT,
       p_to = TO authenticated, p_using = Some (\<lambda>c s r. sql_true), p_with_check = None\<rparr>,
      \<lparr>p_name = ''Users can insert receipt lines'', p_cmd = FOR_INSERT, p_to = TO_PUBLIC,
       p_using = None, p_with_check = Some (\<lambda>c s r. sql_is_not_null (auth_uid c))\<rparr>,
      \<lparr>p_name = ''Users can update receipt lines'', p_cmd = FOR_UPDATE, p_to = TO_PUBLIC,
       p_using = Some (\<lambda>c s r. sql_is_not_null (auth_uid c)), p_with_check = None\<rparr>]"

definition deliveries_policies :: "deliveries_row policy list" where
  "deliveries_policies =
     [\<lparr>p_name = ''Authenticated users can view deliveries'', p_cmd = FOR_SELECT,
       p_to = TO authenticated, p_using = Some (\<lambda>c s r. sql_true), p_with_check = None\<rparr>,
      \<lparr>p_name = ''Staff can create deliveries'', p_cmd = FOR_INSERT, p_to = TO_PUBLIC,
       p_using = None, p_with_check = Some (\<lambda>c s r. sql_is_not_null (auth_uid c))\<rparr>,
      \<lparr>p_name = ''Staff can update own deliveries or managers/admins can update all'',
       p_cmd = FOR_UPDATE, p_to = TO_PUBLIC,
       p_using = Some (\<lambda>c s r. sql_or (sql_or (sql_eq (dv_created_by r) (auth_uid c))
                                               (has_role s (auth_uid c) Admin))
                                       (has_role s (auth_uid c) Manager)),
       p_with_check = None\<rparr>]"

definition delivery_lines_policies :: "delivery_lines_row policy list" where
  "delivery_lines_policies =
     [\<lparr>p_name = ''Authenticated users can view delivery lines'', p_cmd = FOR_SELECT,
       p_to = TO authenticated, p_using = Some (\<lambda>c s r. sql_true), p_with_check = None\<rparr>,
      \<lparr>p_name = ''Users can insert delivery lines'', p_cmd = FOR_INSERT, p_to = TO_PUBLIC,
       p_using = None, p_with_check = Some (\<lambda>c s r. sql_is_not_null (auth_uid c))\<rparr>,
      \<lparr>p_name = ''Users can update delivery lines'', p_cmd = FOR_UPDATE, p_to = TO_PUBLIC,
       p_using = Some (\<lambda>c s r. sql_is_not_null (auth_uid c)), p_with_check = None\<rparr>]"

definition stock_movements_policies :: "stock_movements_row policy list" where
  "stock_movements_policies =
     [\<lparr>p_name = ''Authenticated users can view stock movements'', p_cmd = FOR_SELECT,
       p_to = TO authenticated, p_using = Some (\<lambda>c s r. sql_true), p_with_check = None\<rparr>,
      \<lparr>p_name = ''System can insert stock movements'', p_cmd = FOR_INSERT, p_to = TO_PUBLIC,
       p_using = None, p_with_check = Some (\<lambda>c s r. sql_is_not_null (auth_uid c))\<rparr>]"

section \<open>Constraint checks\<close>

text \<open>
  A statement runs its checks in a fixed order and fails with the first one violated.
\<close>

fun first_error :: "pg_error option list \<Rightarrow> pg_error option" where
  "first_error [] = None"
| "first_error (None # es) = first_error es"
| "first_error (Some e # es) = Some e"

definition violates :: "bool \<Rightarrow> pg_error \<Rightarrow> pg_error option" where
  "violates b e = (if b then Some e else None)"

definition numeric_10_2_fits :: "numeric_10_2 \<Rightarrow> bool" where
  "numeric_10_2_fits q = (\<bar>q\<bar> < 10 ^ 10)"

text \<open>
  An \<^verbatim>\<open>UPDATE\<close> replaces every target row by its new version. A key is unique after the
  update when no second row of the table holds it.
\<close>

definition new_versions :: "('r \<Rightarrow> bool) \<Rightarrow> ('r \<Rightarrow> 'r) \<Rightarrow> 'r list \<Rightarrow> 'r list" where
  "new_versions tgt g rows = map g (filter tgt rows)"

definition updated_rows :: "('r \<Rightarrow> bool) \<Rightarrow> ('r \<Rightarrow> 'r) \<Rightarrow> 'r list \<Rightarrow> 'r list" where
  "updated_rows tgt g rows = map (\<lambda>r. if tgt r then g r else r) rows"

definition unique_after :: "('r \<Rightarrow> 'k) \<Rightarrow> 'r list \<Rightarrow> 'r \<Rightarrow> bool" where
  "unique_after key rows n = (length (filter (\<lambda>x. key x = key n) rows) \<le> 1)"

section \<open>Statements on \<^verbatim>\<open>user_roles\<close>\<close>

text \<open>
  Each statement has two layers. The \<open>_row\<close>/\<open>_rows\<close> function is the statement as the
  table definition constrains it, for a given set of target rows; it is what a
  \<^verbatim>\<open>SECURITY DEFINER\<close> function or the table's owner runs. The function named after the
  statement alone is the same statement issued by a caller of the data API, with row-level
  security deciding the target rows. An inserted row is given complete: a column that the
  statement leaves out holds its default (\<^verbatim>\<open>gen_random_uuid()\<close>, \<^verbatim>\<open>now()\<close>, ...).
\<close>

definition select_user_roles :: "caller \<Rightarrow> db \<Rightarrow> user_roles_row list" where
  "select_user_roles c s = rls_select user_roles_policies c s (user_roles s)"

definition insert_user_roles_row :: "user_roles_row \<Rightarrow> db \<Rightarrow> pg_error + db" where
  "insert_user_roles_row r s =
     (case first_error
        [violates (list_ex (\<lambda>x. ur_id x = ur_id r) (user_roles s))
           (UniqueViolation ''user_roles_pkey''),
         violates (list_ex (\<lambda>x. ur_user_id x = ur_user_id r \<and> ur_role x = ur_role r) (user_roles s))
           (UniqueViolation ''user_roles_user_id_role_key''),
         violates (\<not> list_ex (\<lambda>u. au_id u = ur_user_id r) (auth_users s))
           (ForeignKeyViolation ''user_roles_user_id_fkey'')]
      of Some e \<Rightarrow> Inl e
       | None \<Rightarrow> Inr (s\<lparr>user_roles := user_roles s @ [r]\<rparr>))"

definition insert_user_roles :: "caller \<Rightarrow> user_roles_row \<Rightarrow> db \<Rightarrow> pg_error + db" where
  "insert_user_roles c r s =
     (if rls_insert_check user_roles_policies c s r then insert_user_roles_row r s
      else Inl (InsufficientPrivilege ''user_roles''))"

definition delete_user_roles_rows :: "(user_roles_row \<Rightarrow> bool) \<Rightarrow> db \<Rightarrow> pg_error + db" where
  "delete_user_roles_rows tgt s = Inr (s\<lparr>user_roles := filter (\<lambda>r. \<not> tgt r) (user_roles s)\<rparr>)"

definition delete_user_roles :: "caller \<Rightarrow> (user_roles_row \<Rightarrow> bool) \<Rightarrow> db \<Rightarrow> pg_error + db" where
  "delete_user_roles c wh s =
     delete_user_roles_rows (rls_target user_roles_policies FOR_DELETE c s wh) s"

section \<open>Statements on \<^verbatim>\<open>stock_movements\<close> and the view \<^verbatim>\<open>stock_balances\<close>\<close>

definition stock_movements_coerce :: "stock_movements_row \<Rightarrow> pg_error option" where
  "stock_movements_coerce r =
     first_error
       [violates (\<not> numeric_10_2_fits (sm_quantity r)) (NumericValueOutOfRange ''quantity''),
        violates (\<not> numeric_10_2_fits (sm_balance_after r)) (NumericValueOutOfRange ''balance_after'')]"

definition stock_movements_foreign_keys :: "db \<Rightarrow> stock_movements_row \<Rightarrow> pg_error option" where
  "stock_movements_foreign_keys s r =
     first_error
       [violates (\<not> list_ex (\<lambda>p. pd_id p = sm_product_id r) (products s))
          (ForeignKeyViolation ''stock_movements_product_id_fkey''),
        violates (\<not> list_ex (\<lambda>w. wh_id w = sm_warehouse_id r) (warehouses s))
          (ForeignKeyViolation ''stock_movements_warehouse_id_fkey''),
        violates (case sm_created_by r of None \<Rightarrow> False
                  | Some u \<Rightarrow> \<not> list_ex (\<lambda>a. au_id a = u) (auth_users s))
          (ForeignKeyViolation ''stock_movements_created_by_fkey'')]"

definition insert_stock_movements_row :: "stock_movements_row \<Rightarrow> db \<Rightarrow> pg_error + db" where
  "insert_stock_movements_row r s =
     (case first_error
        [stock_movements_coerce r,
         violates (list_ex (\<lambda>x. sm_id x = sm_id r) (stock_movements s))
           (UniqueViolation ''stock_movements_pkey''),
         stock_movements_foreign_keys s r]
      of Some e \<Rightarrow> Inl e
       | None \<Rightarrow> Inr (s\<lparr>stock_movements := stock_movements s @ [r]\<rparr>))"

definition insert_stock_movements :: "caller \<Rightarrow> stock_movements_row \<Rightarrow> db \<Rightarrow> pg_error + db" where
  "insert_stock_movements c r s =
     (case stock_movements_coerce r of
        Some e \<Rightarrow> Inl e
      | None \<Rightarrow>
          if rls_insert_check stock_movements_policies c s r then insert_stock_movements_row r s
          else Inl (InsufficientPrivilege ''stock_movements''))"

definition update_stock_movements_rows ::
  "(stock_movements_row \<Rightarrow> bool) \<Rightarrow> (stock_movements_row \<Rightarrow> stock_movements_row) \<Rightarrow> db \<Rightarrow> pg_error + db" where
  "update_stock_movements_rows tgt g s =
     (let rows' = updated_rows tgt g (stock_movements s) in
      case first_error
        (map (\<lambda>n. first_error
                [stock_movements_coerce n,
                 violates (\<not> unique_after sm_id rows' n) (UniqueViolation ''stock_movements_pkey''),
                 stock_movements_foreign_keys s n])
             (new_versions tgt g (stock_movements s)))
      of Some e \<Rightarrow> Inl e
       | None \<Rightarrow> Inr (s\<lparr>stock_movements := rows'\<rparr>))"

definition update_stock_movements ::
  "caller \<Rightarrow> (stock_movements_row \<Rightarrow> bool) \<Rightarrow> (stock_movements_row \<Rightarrow> stock_movements_row) \<Rightarrow> db \<Rightarrow> pg_error + db" where
  "update_stock_movements c wh g s =
     (let tgt = rls_target stock_movements_policies FOR_UPDATE c s wh in
      if list_all (rls_update_check stock_movements_policies c s)
           (new_versions tgt g (stock_movements s))
      then update_stock_movements_rows tgt g s
      else Inl (InsufficientPrivilege ''stock_movements''))"

definition delete_stock_movements_rows :: "(stock_movements_row \<Rightarrow> bool) \<Rightarrow> db \<Rightarrow> pg_error + db" where
  "delete_stock_movements_rows tgt s =
     Inr (s\<lparr>stock_movements := filter (\<lambda>r. \<not> tgt r) (stock_movements s)\<rparr>)"

definition delete_stock_movements :: "caller \<Rightarrow> (stock_movements_row \<Rightarrow> bool) \<Rightarrow> db \<Rightarrow> pg_error + db" where
  "delete_stock_movements c wh s =
     delete_stock_movements_rows (rls_target stock_movements_policies FOR_DELETE c s wh) s"

text \<open>
  The view: \<^verbatim>\<open>SELECT product_id, warehouse_id, SUM(quantity) FROM stock_movements GROUP BY
  product_id, warehouse_id\<close>. There is one output row per distinct pair of the table, and
  \<^verbatim>\<open>SUM\<close> over \<^verbatim>\<open>NUMERIC\<close> is exact. The view is computed from the table on every read. Both
  migrations create it without the \<^verbatim>\<open>security_invoker\<close> option, so it reads the table with its
  owner's rights and its rows do not depend on who reads it.
\<close>

record stock_balances_row =
  sb_product_id :: uuid
  sb_warehouse_id :: uuid
  sb_quantity :: int

definition group_key :: "stock_movements_row \<Rightarrow> uuid \<times> uuid" where
  "group_key m = (sm_product_id m, sm_warehouse_id m)"

definition stock_balances :: "db \<Rightarrow> stock_balances_row list" where
  "stock_balances s =
     map (\<lambda>k. \<lparr>sb_product_id = fst k, sb_warehouse_id = snd k,
               sb_quantity = sum_list (map sm_quantity
                               (filter (\<lambda>m. group_key m = k) (stock_movements s)))\<rparr>)
         (remdups (map group_key (stock_movements s)))"

section \<open>Triggers\<close>

text \<open>
  \<^verbatim>\<open>handle_updated_at()\<close> is written once for every table with an \<^verbatim>\<open>updated_at\<close> column, so it
  takes the column's update function. It runs only where a \<^verbatim>\<open>CREATE TRIGGER\<close> installs it:
  the migrations install \<^verbatim>\<open>profiles_updated_at\<close> (\<^verbatim>\<open>BEFORE UPDATE ON public.profiles FOR EACH
  ROW\<close>) and no trigger on any other table. \<open>now\<close> is the value of \<^verbatim>\<open>now()\<close> in the statement's
  transaction.
\<close>

definition handle_updated_at ::
  "((timestamptz \<Rightarrow> timestamptz) \<Rightarrow> 'r \<Rightarrow> 'r) \<Rightarrow> timestamptz \<Rightarrow> 'r \<Rightarrow> 'r \<Rightarrow> 'r" where
  "handle_updated_at updated_at_update now OLD NEW = updated_at_update (\<lambda>_. now) NEW"

definition fire_before_update ::
  "(timestamptz \<Rightarrow> 'r \<Rightarrow> 'r \<Rightarrow> 'r) list \<Rightarrow> timestamptz \<Rightarrow> 'r \<Rightarrow> 'r \<Rightarrow> 'r" where
  "fire_before_update trgs now OLD NEW = fold (\<lambda>trg n. trg now OLD n) trgs NEW"

definition profiles_before_update ::
  "(timestamptz \<Rightarrow> profiles_row \<Rightarrow> profiles_row \<Rightarrow> profiles_row) list" where
  "profiles_before_update = [handle_updated_at pf_updated_at_update]"

definition warehouses_before_update ::
  "(timestamptz \<Rightarrow> warehouses_row \<Rightarrow> warehouses_row \<Rightarrow> warehouses_row) list" where
  "warehouses_before_update = []"

section \<open>Statements on \<^verbatim>\<open>profiles\<close> and the creation of an identity\<close>

definition insert_profiles_row :: "profiles_row \<Rightarrow> db \<Rightarrow> pg_error + db" where
  "insert_profiles_row r s =
     (case first_error
        [violates (list_ex (\<lambda>x. pf_id x = pf_id r) (profiles s))
           (UniqueViolation ''profiles_pkey''),
         violates (\<not> list_ex (\<lambda>a. au_id a = pf_id r) (auth_users s))
           (ForeignKeyViolation ''profiles_id_fkey'')]
      of Some e \<Rightarrow> Inl e
       | None \<Rightarrow> Inr (s\<lparr>profiles := profiles s @ [r]\<rparr>))"

definition profiles_new_version ::
  "timestamptz \<Rightarrow> (profiles_row \<Rightarrow> profiles_row) \<Rightarrow> profiles_row \<Rightarrow> profiles_row" where
  "profiles_new_version now g r = fire_before_update profiles_before_update now r (g r)"

definition update_profiles_rows ::
  "timestamptz \<Rightarrow> (profiles_row \<Rightarrow> bool) \<Rightarrow> (profiles_row \<Rightarrow> profiles_row) \<Rightarrow> db \<Rightarrow> pg_error + db" where
  "update_profiles_rows now tgt g s =
     (let rows' = updated_rows tgt (profiles_new_version now g) (profiles s) in
      case first_error
        (map (\<lambda>n. first_error
                [violates (\<not> unique_after pf_id rows' n) (UniqueViolation ''profiles_pkey''),
                 violates (\<not> list_ex (\<lambda>a. au_id a = pf_id n) (auth_users s))
                   (ForeignKeyViolation ''profiles_id_fkey'')])
             (new_versions tgt (profiles_new_version now g) (profiles s)))
      of Some e \<Rightarrow> Inl e
       | None \<Rightarrow> Inr (s\<lparr>profiles := rows'\<rparr>))"

definition update_profiles ::
  "caller \<Rightarrow> timestamptz \<Rightarrow> (profiles_row \<Rightarrow> bool) \<Rightarrow> (profiles_row \<Rightarrow> profiles_row) \<Rightarrow> db \<Rightarrow> pg_error + db" where
  "update_profiles c now wh g s =
     (let tgt = rls_target profiles_policies FOR_UPDATE c s wh in
      if list_all (rls_update_check profiles_policies c s)
           (new_versions tgt (profiles_new_version now g) (profiles s))
      then update_profiles_rows now tgt g s
      else Inl (InsufficientPrivilege ''profiles''))"

text \<open>
  \<^verbatim>\<open>NEW.raw_user_meta_data->>'full_name'\<close>: the field as text, \<^verbatim>\<open>NULL\<close> when the object is
  \<^verbatim>\<open>NULL\<close>, has no such key, or holds JSON \<^verbatim>\<open>null\<close> there.
\<close>

definition json_get_text :: "(string \<times> json_value) list option \<Rightarrow> string \<Rightarrow> string option" where
  "json_get_text j k =
     (case j of
        None \<Rightarrow> None
      | Some obj \<Rightarrow>
          (case map_of obj k of
             None \<Rightarrow> None
           | Some JNull \<Rightarrow> None
           | Some (JString t) \<Rightarrow> Some t
           | Some (JOther t) \<Rightarrow> Some t))"

definition coalesce :: "'a option \<Rightarrow> 'a \<Rightarrow> 'a" where
  "coalesce a d = (case a of None \<Rightarrow> d | Some x \<Rightarrow> x)"

text \<open>
  \<^verbatim>\<open>handle_new_user()\<close> inserts the profile as the function's owner (\<^verbatim>\<open>SECURITY DEFINER\<close>), so no
  policy is consulted. \<^verbatim>\<open>profiles.email\<close> is \<^verbatim>\<open>NOT NULL\<close> while \<^verbatim>\<open>auth.users.email\<close> may be
  \<^verbatim>\<open>NULL\<close>; the two timestamps take their default \<^verbatim>\<open>now()\<close>.
\<close>

definition handle_new_user :: "timestamptz \<Rightarrow> auth_users_row \<Rightarrow> db \<Rightarrow> pg_error + db" where
  "handle_new_user now NEW s =
     (case au_email NEW of
        None \<Rightarrow> Inl (NotNullViolation ''email'')
      | Some e \<Rightarrow>
          insert_profiles_row
            \<lparr>pf_id = au_id NEW,
             pf_full_name = coalesce (json_get_text (au_raw_user_meta_data NEW) ''full_name'') [],
             pf_email = e,
             pf_created_at = now,
             pf_updated_at = now\<rparr> s)"

text \<open>
  The authentication service creates an identity by inserting its row into \<^verbatim>\<open>auth.users\<close>;
  the trigger \<^verbatim>\<open>on_auth_user_created\<close> (\<^verbatim>\<open>AFTER INSERT ... FOR EACH ROW\<close>) then runs in the same
  transaction, and an error in it undoes the insert.
\<close>

definition create_identity :: "timestamptz \<Rightarrow> auth_users_row \<Rightarrow> db \<Rightarrow> pg_error + db" where
  "create_identity now NEW s =
     (if list_ex (\<lambda>a. au_id a = au_id NEW) (auth_users s) then Inl (UniqueViolation ''users_pkey'')
      else handle_new_user now NEW (s\<lparr>auth_users := auth_users s @ [NEW]\<rparr>))"

section \<open>Statements on \<^verbatim>\<open>warehouses\<close> and \<^verbatim>\<open>products\<close>\<close>

text \<open>
  The rows that reference a warehouse or a product do so \<^verbatim>\<open>ON DELETE RESTRICT\<close>; the checks
  run in the order in which the referencing tables were created.
\<close>

definition warehouses_referenced :: "db \<Rightarrow> warehouses_row \<Rightarrow> pg_error option" where
  "warehouses_referenced s w =
     first_error
       [violates (list_ex (\<lambda>r. rc_warehouse_id r = wh_id w) (receipts s))
          (ForeignKeyViolation ''receipts_warehouse_id_fkey''),
        violates (list_ex (\<lambda>d. dv_warehouse_id d = wh_id w) (deliveries s))
          (ForeignKeyViolation ''deliveries_warehouse_id_fkey''),
        violates (list_ex (\<lambda>m. sm_warehouse_id m = wh_id w) (stock_movements s))
          (ForeignKeyViolation ''stock_movements_warehouse_id_fkey'')]"

definition products_referenced :: "db \<Rightarrow> products_row \<Rightarrow> pg_error option" where
  "products_referenced s p =
     first_error
       [violates (list_ex (\<lambda>l. rl_product_id l = pd_id p) (receipt_lines s))
          (ForeignKeyViolation ''receipt_lines_product_id_fkey''),
        violates (list_ex (\<lambda>l. dl_product_id l = pd_id p) (delivery_lines s))
          (ForeignKeyViolation ''delivery_lines_product_id_fkey''),
        violates (list_ex (\<lambda>m. sm_product_id m = pd_id p) (stock_movements s))
          (ForeignKeyViolation ''stock_movements_product_id_fkey'')]"

definition delete_warehouses_rows :: "(warehouses_row \<Rightarrow> bool) \<Rightarrow> db \<Rightarrow> pg_error + db" where
  "delete_warehouses_rows tgt s =
     (case first_error (map (warehouses_referenced s) (filter tgt (warehouses s))) of
        Some e \<Rightarrow> Inl e
      | None \<Rightarrow> Inr (s\<lparr>warehouses := filter (\<lambda>w. \<not> tgt w) (warehouses s)\<rparr>))"

definition delete_warehouses :: "caller \<Rightarrow> (warehouses_row \<Rightarrow> bool) \<Rightarrow> db \<Rightarrow> pg_error + db" where
  "delete_warehouses c wh s =
     delete_warehouses_rows (rls_target warehouses_policies FOR_DELETE c s wh) s"

definition delete_products_rows :: "(products_row \<Rightarrow> bool) \<Rightarrow> db \<Rightarrow> pg_error + db" where
  "delete_products_rows tgt s =
     (case first_error (map (products_referenced s) (filter tgt (products s))) of
        Some e \<Rightarrow> Inl e
      | None \<Rightarrow> Inr (s\<lparr>products := filter (\<lambda>p. \<not> tgt p) (products s)\<rparr>))"

definition delete_products :: "caller \<Rightarrow> (products_row \<Rightarrow> bool) \<Rightarrow> db \<Rightarrow> pg_error + db" where
  "delete_products c wh s =
     delete_products_rows (rls_target products_policies FOR_DELETE c s wh) s"

definition warehouses_new_version ::
  "timestamptz \<Rightarrow> (warehouses_row \<Rightarrow> warehouses_row) \<Rightarrow> warehouses_row \<Rightarrow> warehouses_row" where
  "warehouses_new_version now g r = fire_before_update warehouses_before_update now r (g r)"

text \<open>
  An update that takes a referenced warehouse's \<^verbatim>\<open>id\<close> away is refused as well (the foreign
  keys are \<^verbatim>\<open>ON UPDATE NO ACTION\<close>).
\<close>

definition update_warehouses_rows ::
  "timestamptz \<Rightarrow> (warehouses_row \<Rightarrow> bool) \<Rightarrow> (warehouses_row \<Rightarrow> warehouses_row) \<Rightarrow> db \<Rightarrow> pg_error + db" where
  "update_warehouses_rows now tgt g s =
     (let rows' = updated_rows tgt (warehouses_new_version now g) (warehouses s) in
      case first_error
        (map (\<lambda>n. first_error
                [violates (\<not> unique_after wh_id rows' n) (UniqueViolation ''warehouses_pkey''),
                 violates (\<not> unique_after wh_code rows' n) (UniqueViolation ''warehouses_code_key'')])
             (new_versions tgt (warehouses_new_version now g) (warehouses s))
         @ map (\<lambda>r. if list_ex (\<lambda>x. wh_id x = wh_id r) rows' then None
                     else warehouses_referenced s r)
             (filter tgt (warehouses s)))
      of Some e \<Rightarrow> Inl e
       | None \<Rightarrow> Inr (s\<lparr>warehouses := rows'\<rparr>))"

definition update_warehouses ::
  "caller \<Rightarrow> timestamptz \<Rightarrow> (warehouses_row \<Rightarrow> bool) \<Rightarrow> (warehouses_row \<Rightarrow> warehouses_row) \<Rightarrow> db \<Rightarrow> pg_error + db" where
  "update_warehouses c now wh g s =
     (let tgt = rls_target warehouses_policies FOR_UPDATE c s wh in
      if list_all (rls_update_check warehouses_policies c s)
           (new_versions tgt (warehouses_new_version now g) (warehouses s))
      then update_warehouses_rows now tgt g s
      else Inl (InsufficientPrivilege ''warehouses''))"

section \<open>Receipts: the insert and the page controller's submit handler\<close>

definition insert_receipts_row :: "receipts_row \<Rightarrow> db \<Rightarrow> pg_error + db" where
  "insert_receipts_row r s =
     (case first_error
        [violates (list_ex (\<lambda>x. rc_id x = rc_id r) (receipts s))
           (UniqueViolation ''receipts_pkey''),
         violates (list_ex (\<lambda>x. rc_reference x = rc_reference r) (receipts s))
           (UniqueViolation ''receipts_reference_key''),
         violates (\<not> list_ex (\<lambda>w. wh_id w = rc_warehouse_id r) (warehouses s))
           (ForeignKeyViolation ''receipts_warehouse_id_fkey''),
         violates (case rc_created_by r of None \<Rightarrow> False
                   | Some u \<Rightarrow> \<not> list_ex (\<lambda>a. au_id a = u) (auth_users s))
           (ForeignKeyViolation ''receipts_created_by_fkey'')]
      of Some e \<Rightarrow> Inl e
       | None \<Rightarrow> Inr (s\<lparr>receipts := receipts s @ [r]\<rparr>))"

definition insert_receipts :: "caller \<Rightarrow> receipts_row \<Rightarrow> db \<Rightarrow> pg_error + db" where
  "insert_receipts c r s =
     (if rls_insert_check receipts_policies c s r then insert_receipts_row r s
      else Inl (InsufficientPrivilege ''receipts''))"

text \<open>
  \<^verbatim>\<open>`RCP-${Date.now()}`\<close>: the prefix and the decimal digits of the clock's milliseconds.
\<close>

fun Number_toString :: "nat \<Rightarrow> string" where
  "Number_toString n =
     (if n < 10 then [''0123456789'' ! n]
      else Number_toString (n div 10) @ [''0123456789'' ! (n mod 10)])"

declare Number_toString.simps [simp del]

text \<open>
  \<^verbatim>\<open>Receipts.handleSubmit\<close>. The form holds the supplier's name, the selected warehouse and
  the scheduled date: \<open>fd_warehouse_id\<close> is \<open>None\<close> when the field's text is not a uuid (nothing
  selected), \<open>fd_scheduled_date\<close> is \<open>None\<close> for the empty string, which the handler sends as
  \<^verbatim>\<open>null\<close>. The handler names five columns; \<open>new_id\<close> is the value of \<^verbatim>\<open>gen_random_uuid()\<close> and
  \<open>now\<close> that of \<^verbatim>\<open>now()\<close> for the defaults, and the other columns default to \<^verbatim>\<open>NULL\<close>.
  \<open>date_now\<close> is \<^verbatim>\<open>Date.now()\<close> in the browser.
\<close>

record form_data =
  fd_supplier_name :: string
  fd_warehouse_id :: "uuid option"
  fd_scheduled_date :: "date option"

definition Receipts_handleSubmit ::
  "caller \<Rightarrow> nat \<Rightarrow> uuid \<Rightarrow> timestamptz \<Rightarrow> form_data \<Rightarrow> db \<Rightarrow> pg_error + db" where
  "Receipts_handleSubmit c date_now new_id now fd s =
     (let reference = ''RCP-'' @ Number_toString date_now in
      case fd_warehouse_id fd of
        None \<Rightarrow> Inl (InvalidTextRepresentation ''warehouse_id'')
      | Some w \<Rightarrow>
          insert_receipts c
            \<lparr>rc_id = new_id,
             rc_reference = reference,
             rc_warehouse_id = w,
             rc_supplier_name = fd_supplier_name fd,
             rc_status = Draft,
             rc_scheduled_date = fd_scheduled_date fd,
             rc_received_date = None,
             rc_notes = None,
             rc_created_by = None,
             rc_created_at = now,
             rc_updated_at = now\<rparr> s)"

section \<open>Statements on \<^verbatim>\<open>receipt_lines\<close> and \<^verbatim>\<open>delivery_lines\<close>\<close>

text \<open>
  Neither table has a trigger. \<^verbatim>\<open>quantity\<close> carries \<^verbatim>\<open>CHECK (quantity > 0)\<close>; a line references
  its document and its product.
\<close>

definition receipt_lines_constraints ::
  "db \<Rightarrow> receipt_lines_row list \<Rightarrow> receipt_lines_row \<Rightarrow> pg_error option" where
  "receipt_lines_constraints s rows' n =
     first_error
       [violates (\<not> numeric_10_2_fits (rl_quantity n)) (NumericValueOutOfRange ''quantity''),
        violates (case rl_received_quantity n of None \<Rightarrow> False | Some q \<Rightarrow> \<not> numeric_10_2_fits q)
          (NumericValueOutOfRange ''received_quantity''),
        violates (\<not> 0 < rl_quantity n) (CheckViolation ''receipt_lines_quantity_check''),
        violates (\<not> unique_after rl_id rows' n) (UniqueViolation ''receipt_lines_pkey''),
        violates (\<not> list_ex (\<lambda>r. rc_id r = rl_receipt_id n) (receipts s))
          (ForeignKeyViolation ''receipt_lines_receipt_id_fkey''),
        violates (\<not> list_ex (\<lambda>p. pd_id p = rl_product_id n) (products s))
          (ForeignKeyViolation ''receipt_lines_product_id_fkey'')]"

definition update_receipt_lines_rows ::
  "(receipt_lines_row \<Rightarrow> bool) \<Rightarrow> (receipt_lines_row \<Rightarrow> receipt_lines_row) \<Rightarrow> db \<Rightarrow> pg_error + db" where
  "update_receipt_lines_rows tgt g s =
     (let rows' = updated_rows tgt g (receipt_lines s) in
      case first_error (map (receipt_lines_constraints s rows')
                            (new_versions tgt g (receipt_lines s)))
      of Some e \<Rightarrow> Inl e
       | None \<Rightarrow> Inr (s\<lparr>receipt_lines := rows'\<rparr>))"

definition update_receipt_lines ::
  "caller \<Rightarrow> (receipt_lines_row \<Rightarrow> bool) \<Rightarrow> (receipt_lines_row \<Rightarrow> receipt_lines_row) \<Rightarrow> db \<Rightarrow> pg_error + db" where
  "update_receipt_lines c wh g s =
     (let tgt = rls_target receipt_lines_policies FOR_UPDATE c s wh in
      if list_all (rls_update_check receipt_lines_policies c s)
           (new_versions tgt g (receipt_lines s))
      then update_receipt_lines_rows tgt g s
      else Inl (InsufficientPrivilege ''receipt_lines''))"

definition delivery_lines_constraints ::
  "db \<Rightarrow> delivery_lines_row list \<Rightarrow> delivery_lines_row \<Rightarrow> pg_error option" where
  "delivery_lines_constraints s rows' n =
     first_error
       [violates (\<not> numeric_10_2_fits (dl_quantity n)) (NumericValueOutOfRange ''quantity''),
        violates (case dl_delivered_quantity n of None \<Rightarrow> False | Some q \<Rightarrow> \<not> numeric_10_2_fits q)
          (NumericValueOutOfRange ''delivered_quantity''),
        violates (\<not> 0 < dl_quantity n) (CheckViolation ''delivery_lines_quantity_check''),
        violates (\<not> unique_after dl_id rows' n) (UniqueViolation ''delivery_lines_pkey''),
        violates (\<not> list_ex (\<lambda>d. dv_id d = dl_delivery_id n) (deliveries s))
          (ForeignKeyViolation ''delivery_lines_delivery_id_fkey''),
        violates (\<not> list_ex (\<lambda>p. pd_id p = dl_product_id n) (products s))
          (ForeignKeyViolation ''delivery_lines_product_id_fkey'')]"

definition update_delivery_lines_rows ::
  "(delivery_lines_row \<Rightarrow> bool) \<Rightarrow> (delivery_lines_row \<Rightarrow> delivery_lines_row) \<Rightarrow> db \<Rightarrow> pg_error + db" where
  "update_delivery_lines_rows tgt g s =
     (let rows' = updated_rows tgt g (delivery_lines s) in
      case first_error (map (delivery_lines_constraints s rows')
                            (new_versions tgt g (delivery_lines s)))
      of Some e \<Rightarrow> Inl e
       | None \<Rightarrow> Inr (s\<lparr>delivery_lines := rows'\<rparr>))"

definition update_delivery_lines ::
  "caller \<Rightarrow> (delivery_lines_row \<Rightarrow> bool) \<Rightarrow> (delivery_lines_row \<Rightarrow> delivery_lines_row) \<Rightarrow> db \<Rightarrow> pg_error + db" where
  "update_delivery_lines c wh g s =
     (let tgt = rls_target delivery_lines_policies FOR_UPDATE c s wh in
      if list_all (rls_update_check delivery_lines_policies c s)
           (new_versions tgt g (delivery_lines s))
      then update_delivery_lines_rows tgt g s
      else Inl (InsufficientPrivilege ''delivery_lines''))"

section \<open>Sequences of ledger inserts and reads of the view\<close>

text \<open>
  A sequence of \<^verbatim>\<open>INSERT\<close>s into \<^verbatim>\<open>stock_movements\<close>, each by its own caller; a failed insert
  changes nothing. \<open>accepted\<close> lists the rows of the sequence that were inserted.
  \<open>balance_rows\<close> is \<^verbatim>\<open>SELECT * FROM stock_balances WHERE product_id = p AND warehouse_id = w\<close>.
\<close>

fun insert_all :: "(caller \<times> stock_movements_row) list \<Rightarrow> db \<Rightarrow> db" where
  "insert_all [] s = s"
| "insert_all ((c, r) # reqs) s = insert_all reqs (state_after s (insert_stock_movements c r s))"

fun accepted :: "(caller \<times> stock_movements_row) list \<Rightarrow> db \<Rightarrow> stock_movements_row list" where
  "accepted [] s = []"
| "accepted ((c, r) # reqs) s =
     (case insert_stock_movements c r s of
        Inl e \<Rightarrow> accepted reqs s
      | Inr s' \<Rightarrow> r # accepted reqs s')"

definition balance_rows :: "db \<Rightarrow> uuid \<Rightarrow> uuid \<Rightarrow> stock_balances_row list" where
  "balance_rows s p w =
     filter (\<lambda>b. sb_product_id b = p \<and> sb_warehouse_id b = w) (stock_balances s)"

section \<open>The dashboard\<close>

text \<open>
  \<^verbatim>\<open>Dashboard.fetchStats\<close> computes with JavaScript numbers, which are IEEE 754 binary64
  values: 53 significant bits, every operation rounded to the nearest value, ties to
  even. The literal \<^verbatim>\<open>0.15\<close> denotes the binary64 value nearest to 15/100, which is
  \<open>5404319552844595 / 2 ^ 55\<close>. A count below \<open>2 ^ 53\<close> is a binary64 value itself, so
  \<^verbatim>\<open>count * 0.15\<close> is the exact product \<open>count * 5404319552844595 / 2 ^ 55\<close> rounded to 53
  significant bits. The model keeps such a value as its numerator over \<open>2 ^ 55\<close>; the
  products here are far from the overflow and underflow thresholds.
\<close>

fun bit_length :: "nat \<Rightarrow> nat" where
  "bit_length n = (if n = 0 then 0 else Suc (bit_length (n div 2)))"

declare bit_length.simps [simp del]

definition round_to_53_bits :: "nat \<Rightarrow> nat" where
  "round_to_53_bits N =
     (if bit_length N \<le> 53 then N
      else let sh = bit_length N - 53;
               q = N div 2 ^ sh;
               r = N mod 2 ^ sh;
               half = 2 ^ (sh - 1)
           in (if half < r \<or> (r = half \<and> odd q) then q + 1 else q) * 2 ^ sh)"

definition double_0_15 :: nat where
  "double_0_15 = 5404319552844595"

definition times_0_15 :: "nat \<Rightarrow> nat" where
  "times_0_15 n = round_to_53_bits (n * double_0_15)"

definition Math_floor :: "nat \<Rightarrow> nat" where
  "Math_floor x = x div 2 ^ 55"

text \<open>
  The four queries ask for an exact count only (\<^verbatim>\<open>head: true\<close>); each counts the rows that the
  caller's \<^verbatim>\<open>SELECT\<close> policies show and that match the filter. The client returns the count
  or \<^verbatim>\<open>null\<close>, and \<^verbatim>\<open>count || 0\<close> reads \<^verbatim>\<open>null\<close> as \<open>0\<close>. The query for the low-stock figure is
  the same query as the one for the total.
\<close>

definition count_active_products :: "caller \<Rightarrow> db \<Rightarrow> nat option" where
  "count_active_products c s =
     Some (length (filter (\<lambda>p. pd_is_active p = True)
                          (rls_select products_policies c s (products s))))"

definition count_pending_receipts :: "caller \<Rightarrow> db \<Rightarrow> nat option" where
  "count_pending_receipts c s =
     Some (length (filter (\<lambda>r. rc_status r \<in> set [Draft, Waiting])
                          (rls_select receipts_policies c s (receipts s))))"

definition count_pending_deliveries :: "caller \<Rightarrow> db \<Rightarrow> nat option" where
  "count_pending_deliveries c s =
     Some (length (filter (\<lambda>d. dv_status d \<in> set [Draft, Waiting])
                          (rls_select deliveries_policies c s (deliveries s))))"

definition or_zero :: "nat option \<Rightarrow> nat" where
  "or_zero count = (case count of None \<Rightarrow> 0 | Some n \<Rightarrow> n)"

record DashboardStats =
  totalProducts :: nat
  lowStockProducts :: nat
  pendingReceipts :: nat
  pendingDeliveries :: nat

definition fetchStats :: "caller \<Rightarrow> db \<Rightarrow> DashboardStats" where
  "fetchStats c s =
     (let totalProducts = count_active_products c s;
          lowStockProducts = count_active_products c s;
          pendingReceipts = count_pending_receipts c s;
          pendingDeliveries = count_pending_deliveries c s
      in \<lparr>totalProducts = or_zero totalProducts,
          lowStockProducts = Math_floor (times_0_15 (or_zero lowStockProducts)),
          pendingReceipts = or_zero pendingReceipts,
          pendingDeliveries = or_zero pendingDeliveries\<rparr>)"

section \<open>An example database\<close>

text \<open>
  Two identities, an administrator and a member of staff, the default warehouse of the
  migration, one product, and the ledger of the specification's scenario: a receipt of 50.00
  and a delivery of 20.00 of the product in the warehouse.
\<close>

definition demo_admin :: caller where
  "demo_admin = \<lparr>pg_role = authenticated, jwt_sub = Some 1\<rparr>"

definition demo_staff :: caller where
  "demo_staff = \<lparr>pg_role = authenticated, jwt_sub = Some 2\<rparr>"

definition demo_receipt_movement :: stock_movements_row where
  "demo_receipt_movement =
     \<lparr>sm_id = 41, sm_product_id = 31, sm_warehouse_id = 21, sm_movement_type = Receipt,
      sm_reference_id = None, sm_quantity = 5000, sm_balance_after = 5000, sm_notes = None,
      sm_created_by = Some 2, sm_created_at = 100\<rparr>"

definition demo_delivery_movement :: stock_movements_row where
  "demo_delivery_movement =
     \<lparr>sm_id = 42, sm_product_id = 31, sm_warehouse_id = 21, sm_movement_type = Delivery,
      sm_reference_id = None, sm_quantity = - 2000, sm_balance_after = 3000, sm_notes = None,
      sm_created_by = Some 2, sm_created_at = 110\<rparr>"

definition demo_warehouse :: warehouses_row where
  "demo_warehouse =
     \<lparr>wh_id = 21, wh_name = ''Main Warehouse'', wh_code = ''WH-MAIN'',
      wh_address = Some ''123 Warehouse Street'', wh_is_active = True,
      wh_created_at = 100, wh_updated_at = 100\<rparr>"

definition demo_product :: products_row where
  "demo_product =
     \<lparr>pd_id = 31, pd_name = ''Widget'', pd_sku = ''W-1'', pd_category_id = None,
      pd_unit_of_measure = ''unit'', pd_reorder_level = Some 0, pd_description = None,
      pd_is_active = True, pd_created_at = 100, pd_updated_at = 100\<rparr>"

definition demo_staff_role :: user_roles_row where
  "demo_staff_role = \<lparr>ur_id = 12, ur_user_id = 2, ur_role = Staff, ur_created_at = 100\<rparr>"

definition demo_receipt_line :: receipt_lines_row where
  "demo_receipt_line =
     \<lparr>rl_id = 61, rl_receipt_id = 51, rl_product_id = 31, rl_quantity = 5000,
      rl_received_quantity = Some 0, rl_created_at = 100\<rparr>"

definition demo_db :: db where
  "demo_db =
     \<lparr>auth_users =
        [\<lparr>au_id = 1, au_email = Some ''admin@example.com'',
          au_raw_user_meta_data = Some [(''full_name'', JString ''Ada'')]\<rparr>,
         \<lparr>au_id = 2, au_email = Some ''staff@example.com'', au_raw_user_meta_data = Some []\<rparr>],
      profiles =
        [\<lparr>pf_id = 1, pf_full_name = ''Ada'', pf_email = ''admin@example.com'',
          pf_created_at = 100, pf_updated_at = 100\<rparr>,
         \<lparr>pf_id = 2, pf_full_name = [], pf_email = ''staff@example.com'',
          pf_created_at = 100, pf_updated_at = 100\<rparr>],
      user_roles =
        [\<lparr>ur_id = 11, ur_user_id = 1, ur_role = Admin, ur_created_at = 100\<rparr>, demo_staff_role],
      warehouses = [demo_warehouse],
      categories = [],
      products = [demo_product],
      receipts =
        [\<lparr>rc_id = 51, rc_reference = ''RCP-1700000000000'', rc_warehouse_id = 21,
          rc_supplier_name = ''Acme'', rc_status = Draft, rc_scheduled_date = None,
          rc_received_date = None, rc_notes = None, rc_created_by = Some 1,
          rc_created_at = 100, rc_updated_at = 100\<rparr>],
      receipt_lines = [demo_receipt_line],
      deliveries = [],
      delivery_lines = [],
      stock_movements = [demo_receipt_movement, demo_delivery_movement]\<rparr>"

definition demo_new_role :: user_roles_row where
  "demo_new_role = \<lparr>ur_id = 13, ur_user_id = 2, ur_role = Manager, ur_created_at = 120\<rparr>"

definition demo_empty_ledger :: db where
  "demo_empty_ledger = demo_db\<lparr>stock_movements := []\<rparr>"

definition demo_anon :: caller where
  "demo_anon = \<lparr>pg_role = anon, jwt_sub = None\<rparr>"

definition demo_new_user :: auth_users_row where
  "demo_new_user = \<lparr>au_id = 3, au_email = Some ''new@example.com'', au_raw_user_meta_data = Some []\<rparr>"

definition demo_new_profile :: profiles_row where
  "demo_new_profile = \<lparr>pf_id = 3, pf_full_name = [], pf_email = ''new@example.com'',
     pf_created_at = 300, pf_updated_at = 300\<rparr>"

definition demo_form :: form_data where
  "demo_form = \<lparr>fd_supplier_name = ''Globex'', fd_warehouse_id = Some 21, fd_scheduled_date = None\<rparr>"

definition demo_submitted_receipt :: receipts_row where
  "demo_submitted_receipt =
     \<lparr>rc_id = 52, rc_reference = ''RCP-1763786702000'', rc_warehouse_id = 21,
      rc_supplier_name = ''Globex'', rc_status = Draft, rc_scheduled_date = None,
      rc_received_date = None, rc_notes = None, rc_created_by = None,
      rc_created_at = 400, rc_updated_at = 400\<rparr>"

definition demo_catalogue :: db where
  "demo_catalogue =
     demo_db\<lparr>products := map (\<lambda>i. demo_product\<lparr>pd_id := i, pd_is_active := i \<noteq> 38\<rparr>)
                                [31, 32, 33, 34, 35, 36, 37, 38]\<rparr>"


section \<open>Verification: what the policies evaluate to\<close>

lemma has_role_bool: "has_role s u r = Some True \<or> has_role s u r = Some False"
  by (simp add: has_role_def)

lemma has_role_not_True: "(has_role s u r \<noteq> Some True) = (has_role s u r = Some False)"
  using has_role_bool[of s u r] by auto

lemma user_roles_select_using:
  "using_passes user_roles_policies FOR_SELECT c s r = (has_role s (auth_uid c) Admin = Some True)"
  by (simp add: using_passes_def user_roles_policies_def policy_applies_def)

lemma user_roles_delete_using:
  "using_passes user_roles_policies FOR_DELETE c s r = (has_role s (auth_uid c) Admin = Some True)"
  by (simp add: using_passes_def user_roles_policies_def policy_applies_def)

lemma user_roles_insert_check:
  "rls_insert_check user_roles_policies c s r = (has_role s (auth_uid c) Admin = Some True)"
  by (simp add: rls_insert_check_def check_passes_def user_roles_policies_def policy_applies_def)

lemma stock_movements_no_update_policy:
  "using_passes stock_movements_policies FOR_UPDATE c s r = False"
  by (simp add: using_passes_def stock_movements_policies_def policy_applies_def)

lemma stock_movements_no_delete_policy:
  "using_passes stock_movements_policies FOR_DELETE c s r = False"
  by (simp add: using_passes_def stock_movements_policies_def policy_applies_def)

lemma demo_db_tables:
  "auth_users demo_db =
     [\<lparr>au_id = 1, au_email = Some ''admin@example.com'',
       au_raw_user_meta_data = Some [(''full_name'', JString ''Ada'')]\<rparr>,
      \<lparr>au_id = 2, au_email = Some ''staff@example.com'', au_raw_user_meta_data = Some []\<rparr>]"
  "user_roles demo_db =
     [\<lparr>ur_id = 11, ur_user_id = 1, ur_role = Admin, ur_created_at = 100\<rparr>, demo_staff_role]"
  "warehouses demo_db = [demo_warehouse]"
  "products demo_db = [demo_product]"
  "receipt_lines demo_db = [demo_receipt_line]"
  "deliveries demo_db = []"
  "delivery_lines demo_db = []"
  "stock_movements demo_db = [demo_receipt_movement, demo_delivery_movement]"
  by (simp_all add: demo_db_def)

lemma demo_staff_not_admin: "has_role demo_db (auth_uid demo_staff) Admin = Some False"
  by (simp add: has_role_def demo_db_tables demo_staff_def auth_uid_def sql_and_def sql_eq_def
      demo_staff_role_def)

lemma demo_admin_is_admin: "has_role demo_db (auth_uid demo_admin) Admin = Some True"
  by (simp add: has_role_def demo_db_tables demo_admin_def auth_uid_def sql_and_def sql_eq_def
      demo_staff_role_def)

section \<open>Reading role assignments\<close>

text \<open>
  Claim C8. A caller who does not hold the admin role reads no row of \<^verbatim>\<open>user_roles\<close>, its own
  role assignments included: the only \<^verbatim>\<open>SELECT\<close> policy of the table asks for the admin role.
\<close>

theorem non_admin_selects_no_user_roles:
  "has_role s (auth_uid c) Admin = Some False \<Longrightarrow> select_user_roles c s = []"
  by (simp add: select_user_roles_def rls_select_def user_roles_select_using)

text \<open>
  In the example the member of staff has a role assignment of its own and still reads
  nothing.
\<close>

theorem non_admin_selects_no_user_roles_witness:
  "has_role demo_db (auth_uid demo_staff) Admin = Some False
   \<and> demo_staff_role \<in> set (user_roles demo_db)
   \<and> Some (ur_user_id demo_staff_role) = auth_uid demo_staff
   \<and> select_user_roles demo_staff demo_db = []"
proof -
  have a: "demo_staff_role \<in> set (user_roles demo_db)" by (simp add: demo_db_tables)
  have b: "Some (ur_user_id demo_staff_role) = auth_uid demo_staff"
    by (simp add: demo_staff_role_def demo_staff_def auth_uid_def)
  from non_admin_selects_no_user_roles[OF demo_staff_not_admin] demo_staff_not_admin a b
  show ?thesis by blast
qed

section \<open>The ledger is append-only\<close>

text \<open>
  Claim C2. Whoever the caller is and whatever its role, an \<^verbatim>\<open>UPDATE\<close> or a \<^verbatim>\<open>DELETE\<close> on
  \<^verbatim>\<open>stock_movements\<close> leaves the database as it was (no policy of the table is for either
  command, so no row is a target), and an \<^verbatim>\<open>INSERT\<close> leaves the ledger as it was or appends
  its row.
\<close>

theorem ledger_rows_never_updated_or_deleted:
  "update_stock_movements c wh g s = Inr s
   \<and> delete_stock_movements c wh s = Inr s
   \<and> (stock_movements (state_after s (insert_stock_movements c r s)) = stock_movements s
      \<or> stock_movements (state_after s (insert_stock_movements c r s)) = stock_movements s @ [r])"
  by (simp add: update_stock_movements_def update_stock_movements_rows_def
      delete_stock_movements_def delete_stock_movements_rows_def rls_target_def
      stock_movements_no_update_policy stock_movements_no_delete_policy
      new_versions_def updated_rows_def insert_stock_movements_def insert_stock_movements_row_def
      state_after_def split: option.splits)

section \<open>Managing role assignments\<close>

text \<open>
  Claim C6, as the code has it. For a caller without the admin role an \<^verbatim>\<open>INSERT\<close> into
  \<^verbatim>\<open>user_roles\<close> fails with the row-level-security error and a \<^verbatim>\<open>DELETE\<close> completes without
  an error and without a target row, so neither changes the database; an insert that
  succeeds and a delete that changes the database are an admin's.
\<close>

theorem role_assignment_needs_admin:
  "(has_role s (auth_uid c) Admin = Some False \<longrightarrow>
      insert_user_roles c r s = Inl (InsufficientPrivilege ''user_roles'')
      \<and> delete_user_roles c wh s = Inr s)
   \<and> (insert_user_roles c r s = Inr s' \<longrightarrow> has_role s (auth_uid c) Admin = Some True)
   \<and> (state_after s (delete_user_roles c wh s) \<noteq> s \<longrightarrow> has_role s (auth_uid c) Admin = Some True)"
proof (cases "has_role s (auth_uid c) Admin = Some True")
  case True
  then show ?thesis by simp
next
  case False
  then have na: "has_role s (auth_uid c) Admin = Some False" by (simp add: has_role_not_True)
  have "insert_user_roles c r s = Inl (InsufficientPrivilege ''user_roles'')"
    by (simp add: insert_user_roles_def user_roles_insert_check na)
  moreover have "delete_user_roles c wh s = Inr s"
    by (simp add: delete_user_roles_def delete_user_roles_rows_def rls_target_def
        user_roles_delete_using na)
  ultimately show ?thesis by (simp add: state_after_def)
qed

text \<open>
  The claim as stated asks for a denial to be reported on a non-admin's delete. The member
  of staff of the example deletes with no error reported.
\<close>

theorem non_admin_delete_reports_no_denial:
  "has_role demo_db (auth_uid demo_staff) Admin = Some False
   \<and> delete_user_roles demo_staff (\<lambda>r. True) demo_db = Inr demo_db
   \<and> \<not> isl (delete_user_roles demo_staff (\<lambda>r. True) demo_db)"
  by (simp add: demo_staff_not_admin delete_user_roles_def delete_user_roles_rows_def rls_target_def
        user_roles_delete_using)

theorem role_assignment_needs_admin_witness:
  "has_role demo_db (auth_uid demo_staff) Admin = Some False
   \<and> insert_user_roles demo_staff demo_new_role demo_db = Inl (InsufficientPrivilege ''user_roles'')
   \<and> delete_user_roles demo_staff (\<lambda>r. True) demo_db = Inr demo_db
   \<and> insert_user_roles demo_admin demo_new_role demo_db
       = Inr (demo_db\<lparr>user_roles := user_roles demo_db @ [demo_new_role]\<rparr>)
   \<and> state_after demo_db (delete_user_roles demo_admin (\<lambda>r. ur_id r = 12) demo_db) \<noteq> demo_db
   \<and> has_role demo_db (auth_uid demo_admin) Admin = Some True"
proof -
  have 1: "insert_user_roles demo_admin demo_new_role demo_db
       = Inr (demo_db\<lparr>user_roles := user_roles demo_db @ [demo_new_role]\<rparr>)"
    by (simp add: insert_user_roles_def user_roles_insert_check demo_admin_is_admin
        insert_user_roles_row_def violates_def demo_new_role_def demo_db_tables demo_staff_role_def)
  have 2: "user_roles (state_after demo_db (delete_user_roles demo_admin (\<lambda>r. ur_id r = 12) demo_db))
       \<noteq> user_roles demo_db"
    by (simp add: delete_user_roles_def delete_user_roles_rows_def rls_target_def
        user_roles_delete_using user_roles_select_using demo_admin_is_admin state_after_def)
       (simp add: demo_db_tables demo_staff_role_def)
  then have 3: "state_after demo_db (delete_user_roles demo_admin (\<lambda>r. ur_id r = 12) demo_db) \<noteq> demo_db"
    by auto
  show ?thesis
    using role_assignment_needs_admin[of demo_db demo_staff demo_new_role "\<lambda>r. True"]
      role_assignment_needs_admin[of demo_db demo_admin demo_new_role "\<lambda>r. ur_id r = 12"] 1 3
    by (simp add: demo_staff_not_admin)
qed

section \<open>The stock balance\<close>

lemma filter_eq_distinct:
  "distinct ks \<Longrightarrow> filter (\<lambda>x. x = k) ks = (if k \<in> set ks then [k] else [])"
  by (induction ks) auto

lemma group_key_eq: "(group_key m = (p, w)) = (sm_product_id m = p \<and> sm_warehouse_id m = w)"
  by (auto simp add: group_key_def)

lemma balance_rows_eq:
  "balance_rows s p w =
     (let ms = filter (\<lambda>m. sm_product_id m = p \<and> sm_warehouse_id m = w) (stock_movements s)
      in if ms = [] then []
         else [\<lparr>sb_product_id = p, sb_warehouse_id = w, sb_quantity = sum_list (map sm_quantity ms)\<rparr>])"
proof -
  let ?mk = "\<lambda>k. \<lparr>sb_product_id = fst k, sb_warehouse_id = snd k,
               sb_quantity = sum_list (map sm_quantity
                               (filter (\<lambda>m. group_key m = k) (stock_movements s)))\<rparr>"
  let ?ks = "remdups (map group_key (stock_movements s))"
  have sel: "(\<lambda>b. sb_product_id b = p \<and> sb_warehouse_id b = w) \<circ> ?mk = (\<lambda>k. k = (p, w))"
    by (auto simp add: fun_eq_iff)
  have "balance_rows s p w = map ?mk (filter (\<lambda>k. k = (p, w)) ?ks)"
    by (simp add: balance_rows_def stock_balances_def filter_map sel)
  also have "\<dots> = (if (p, w) \<in> set ?ks then [?mk (p, w)] else [])"
    by (simp add: filter_eq_distinct)
  finally have 1: "balance_rows s p w = (if (p, w) \<in> set ?ks then [?mk (p, w)] else [])" .
  have 2: "((p, w) \<in> set ?ks) =
      (filter (\<lambda>m. sm_product_id m = p \<and> sm_warehouse_id m = w) (stock_movements s) \<noteq> [])"
    by (force simp add: filter_empty_conv group_key_eq[symmetric] image_iff)
  show ?thesis
    unfolding 1 2 by (simp add: Let_def group_key_eq)
qed

lemma insert_stock_movements_appends:
  "insert_stock_movements c r s = Inr s' \<Longrightarrow> stock_movements s' = stock_movements s @ [r]"
  by (auto simp add: insert_stock_movements_def insert_stock_movements_row_def
      split: option.splits if_splits)

lemma insert_all_ledger:
  "stock_movements (insert_all reqs s) = stock_movements s @ accepted reqs s"
proof (induction reqs arbitrary: s)
  case Nil
  then show ?case by simp
next
  case (Cons req reqs)
  obtain c r where req: "req = (c, r)" by (cases req)
  show ?case
  proof (cases "insert_stock_movements c r s")
    case (Inl e)
    then show ?thesis using Cons.IH[of s] by (simp add: req state_after_def)
  next
    case (Inr s')
    then show ?thesis
      using Cons.IH[of s'] insert_stock_movements_appends[OF Inr]
      by (simp add: req state_after_def)
  qed
qed

lemma demo_inserts:
  "insert_stock_movements demo_staff demo_receipt_movement demo_empty_ledger
     = Inr (demo_db\<lparr>stock_movements := [demo_receipt_movement]\<rparr>)"
  "insert_stock_movements demo_staff demo_delivery_movement (demo_db\<lparr>stock_movements := [demo_receipt_movement]\<rparr>)
     = Inr demo_db"
  "insert_stock_movements demo_anon (demo_delivery_movement\<lparr>sm_id := 43\<rparr>) demo_db
     = Inl (InsufficientPrivilege ''stock_movements'')"
    by (simp_all add: insert_stock_movements_def insert_stock_movements_row_def stock_movements_coerce_def
      stock_movements_foreign_keys_def violates_def numeric_10_2_fits_def rls_insert_check_def
      check_passes_def stock_movements_policies_def policy_applies_def sql_is_not_null_def
      auth_uid_def demo_staff_def demo_anon_def demo_empty_ledger_def demo_db_def demo_receipt_movement_def
      demo_delivery_movement_def demo_product_def demo_warehouse_def)

text \<open>
  Claim C1. After any sequence of inserts into \<^verbatim>\<open>stock_movements\<close>, the ledger is the old
  ledger followed by the rows that were accepted, and for every pair of a product and a
  warehouse the view \<^verbatim>\<open>stock_balances\<close> has no row when the ledger has no movement of the
  pair, and otherwise exactly one row, whose quantity is the sum of the signed quantities
  of the pair's movements. The sequence is arbitrary, so this holds after every insert.
\<close>

theorem stock_balance_is_sum_of_movements:
  "stock_movements (insert_all reqs s) = stock_movements s @ accepted reqs s
   \<and> balance_rows (insert_all reqs s) p w =
     (let ms = filter (\<lambda>m. sm_product_id m = p \<and> sm_warehouse_id m = w)
                      (stock_movements s @ accepted reqs s)
      in if ms = [] then []
         else [\<lparr>sb_product_id = p, sb_warehouse_id = w, sb_quantity = sum_list (map sm_quantity ms)\<rparr>])"
  by (simp only: balance_rows_eq insert_all_ledger simp_thms)

text \<open>
  The scenario of the specification: on an empty ledger a receipt of 50.00 and a delivery of
  20.00 are accepted, an anonymous insert is refused, and the balance of the pair is 30.00;
  before the inserts the pair has no row.
\<close>

theorem stock_balance_scenario:
  "accepted [(demo_staff, demo_receipt_movement), (demo_staff, demo_delivery_movement),
             (demo_anon, demo_delivery_movement\<lparr>sm_id := 43\<rparr>)] demo_empty_ledger
     = [demo_receipt_movement, demo_delivery_movement]
   \<and> balance_rows (insert_all [(demo_staff, demo_receipt_movement), (demo_staff, demo_delivery_movement),
             (demo_anon, demo_delivery_movement\<lparr>sm_id := 43\<rparr>)] demo_empty_ledger) 31 21
     = [\<lparr>sb_product_id = 31, sb_warehouse_id = 21, sb_quantity = 3000\<rparr>]
   \<and> balance_rows demo_empty_ledger 31 21 = []"
proof -
  let ?reqs = "[(demo_staff, demo_receipt_movement), (demo_staff, demo_delivery_movement),
             (demo_anon, demo_delivery_movement\<lparr>sm_id := 43\<rparr>)]"
  have acc: "accepted ?reqs demo_empty_ledger = [demo_receipt_movement, demo_delivery_movement]"
    by (simp add: demo_inserts)
  have e: "stock_movements demo_empty_ledger = []" by (simp add: demo_empty_ledger_def)
  have "balance_rows (insert_all ?reqs demo_empty_ledger) 31 21
     = [\<lparr>sb_product_id = 31, sb_warehouse_id = 21, sb_quantity = 3000\<rparr>]"
    using stock_balance_is_sum_of_movements[of ?reqs demo_empty_ledger 31 21]
    unfolding acc e by (simp add: demo_receipt_movement_def demo_delivery_movement_def)
  moreover have "balance_rows demo_empty_ledger 31 21 = []"
    using stock_balance_is_sum_of_movements[of "[]" demo_empty_ledger 31 21]
    by (simp add: e)
  ultimately show ?thesis using acc by simp
qed


section \<open>The modification timestamp\<close>

lemma profiles_new_version_stamps:
  "profiles_new_version now g r = (g r)\<lparr>pf_updated_at := now\<rparr>"
  by (simp add: profiles_new_version_def fire_before_update_def profiles_before_update_def
      handle_updated_at_def)

lemma warehouses_new_version_plain: "warehouses_new_version now g = g"
  by (rule ext)
     (simp add: warehouses_new_version_def fire_before_update_def warehouses_before_update_def)

lemma update_profiles_stamps_updated_at:
  "update_profiles c now wh g s = Inr s' \<Longrightarrow>
   profiles s' = map (\<lambda>r. if rls_target profiles_policies FOR_UPDATE c s wh r
                           then (g r)\<lparr>pf_updated_at := now\<rparr> else r) (profiles s)"
  by (auto simp add: update_profiles_def update_profiles_rows_def Let_def updated_rows_def
      profiles_new_version_stamps split: if_splits option.splits)

lemma update_warehouses_rows_ignores_clock:
  "update_warehouses_rows now tgt g s = update_warehouses_rows now' tgt g s"
  by (simp add: update_warehouses_rows_def warehouses_new_version_plain)

lemma update_warehouses_ignores_clock:
  "update_warehouses c now wh g s = update_warehouses c now' wh g s"
  by (simp add: update_warehouses_def Let_def warehouses_new_version_plain
      update_warehouses_rows_ignores_clock[of now _ g s now'] cong: if_cong)

lemma demo_admin_may_update_warehouses:
  "rls_target warehouses_policies FOR_UPDATE demo_admin demo_db wh = wh"
  "rls_update_check warehouses_policies demo_admin demo_db r"
  by (rule ext)
     (simp_all add: rls_target_def rls_update_check_def using_passes_def check_passes_def
      warehouses_policies_def policy_applies_def sql_true_def demo_admin_is_admin,
      simp_all add: demo_admin_def)

text \<open>
  Claim C3 asks for \<^verbatim>\<open>updated_at\<close> to be stamped with the current time on every update of
  \<^verbatim>\<open>profiles\<close>, \<^verbatim>\<open>warehouses\<close>, \<^verbatim>\<open>categories\<close>, \<^verbatim>\<open>products\<close>, \<^verbatim>\<open>receipts\<close> and \<^verbatim>\<open>deliveries\<close>.
  The migrations install the trigger on \<^verbatim>\<open>profiles\<close> alone
  (\<open>update_profiles_stamps_updated_at\<close>); on \<^verbatim>\<open>warehouses\<close> the clock plays no part
  (\<open>update_warehouses_ignores_clock\<close>). Here the administrator renames the default warehouse
  at time 200: the update succeeds and \<^verbatim>\<open>updated_at\<close> is still 100.
\<close>

theorem warehouse_update_keeps_old_updated_at:
  "update_warehouses demo_admin 200 (\<lambda>w. wh_id w = 21) (\<lambda>w. w\<lparr>wh_name := ''Depot''\<rparr>) demo_db
     = Inr (demo_db\<lparr>warehouses := [demo_warehouse\<lparr>wh_name := ''Depot''\<rparr>]\<rparr>)
   \<and> wh_updated_at demo_warehouse = 100
   \<and> wh_updated_at (demo_warehouse\<lparr>wh_name := ''Depot''\<rparr>) = 100"
proof -
  have "update_warehouses demo_admin 200 (\<lambda>w. wh_id w = 21) (\<lambda>w. w\<lparr>wh_name := ''Depot''\<rparr>) demo_db
     = update_warehouses_rows 200 (\<lambda>w. wh_id w = 21) (\<lambda>w. w\<lparr>wh_name := ''Depot''\<rparr>) demo_db"
    by (simp add: update_warehouses_def demo_admin_may_update_warehouses list_all_iff)
  also have "\<dots> = Inr (demo_db\<lparr>warehouses := [demo_warehouse\<lparr>wh_name := ''Depot''\<rparr>]\<rparr>)"
    by (simp add: update_warehouses_rows_def warehouses_new_version_plain new_versions_def
      updated_rows_def unique_after_def violates_def demo_db_tables demo_warehouse_def)
  finally show ?thesis by (simp add: demo_warehouse_def)
qed

section \<open>Provisioning the profile of a new identity\<close>

lemma create_identity_succeeds:
  assumes "au_email NEW = Some e"
    and "\<not> list_ex (\<lambda>a. au_id a = au_id NEW) (auth_users s)"
    and "\<not> list_ex (\<lambda>x. pf_id x = au_id NEW) (profiles s)"
  shows "\<exists>s'. create_identity now NEW s = Inr s'"
  using assms
  by (simp add: create_identity_def handle_new_user_def insert_profiles_row_def violates_def)

lemma demo_create_identity:
  "create_identity 300 demo_new_user demo_db
     = Inr (demo_db\<lparr>auth_users := auth_users demo_db @ [demo_new_user],
                    profiles := profiles demo_db @ [demo_new_profile]\<rparr>)"
  by (simp add: create_identity_def handle_new_user_def insert_profiles_row_def violates_def
      coalesce_def json_get_text_def demo_new_user_def demo_new_profile_def demo_db_def)

text \<open>
  Claim C4. When an identity is created, \<^verbatim>\<open>profiles\<close> gains exactly one row, the only row
  with the identity's id; its email is the identity's and its \<^verbatim>\<open>full_name\<close> is the
  \<^verbatim>\<open>full_name\<close> attribute of the identity's metadata, or the empty string when the metadata
  or the attribute is absent (or JSON \<^verbatim>\<open>null\<close>).
\<close>

theorem new_identity_gets_one_profile:
  assumes "create_identity now NEW s = Inr s'"
  shows "\<exists>e p. au_email NEW = Some e
           \<and> p = \<lparr>pf_id = au_id NEW,
                  pf_full_name =
                    (case au_raw_user_meta_data NEW of
                       None \<Rightarrow> []
                     | Some obj \<Rightarrow>
                         (case map_of obj ''full_name'' of
                            None \<Rightarrow> []
                          | Some JNull \<Rightarrow> []
                          | Some (JString t) \<Rightarrow> t
                          | Some (JOther t) \<Rightarrow> t)),
                  pf_email = e, pf_created_at = now, pf_updated_at = now\<rparr>
           \<and> profiles s' = profiles s @ [p]
           \<and> filter (\<lambda>x. pf_id x = au_id NEW) (profiles s') = [p]
           \<and> auth_users s' = auth_users s @ [NEW]"
proof -
  from assms obtain e where e: "au_email NEW = Some e"
    by (auto simp add: create_identity_def handle_new_user_def split: if_splits option.splits)
  let ?p = "\<lparr>pf_id = au_id NEW,
             pf_full_name = coalesce (json_get_text (au_raw_user_meta_data NEW) ''full_name'') [],
             pf_email = e, pf_created_at = now, pf_updated_at = now\<rparr>"
  from assms e have ins: "insert_profiles_row ?p (s\<lparr>auth_users := auth_users s @ [NEW]\<rparr>) = Inr s'"
    by (auto simp add: create_identity_def handle_new_user_def split: if_splits)
  then have fresh: "\<not> list_ex (\<lambda>x. pf_id x = au_id NEW) (profiles s)"
    and s': "s' = s\<lparr>auth_users := auth_users s @ [NEW], profiles := profiles s @ [?p]\<rparr>"
    by (auto simp add: insert_profiles_row_def violates_def split: if_splits option.splits)
  from fresh have "filter (\<lambda>x. pf_id x = au_id NEW) (profiles s) = []"
    by (simp add: list_ex_iff filter_empty_conv)
  then have one: "filter (\<lambda>x. pf_id x = au_id NEW) (profiles s') = [?p]"
    by (simp add: s')
  have name: "coalesce (json_get_text (au_raw_user_meta_data NEW) ''full_name'') [] =
      (case au_raw_user_meta_data NEW of
         None \<Rightarrow> []
       | Some obj \<Rightarrow>
           (case map_of obj ''full_name'' of
              None \<Rightarrow> []
            | Some JNull \<Rightarrow> []
            | Some (JString t) \<Rightarrow> t
            | Some (JOther t) \<Rightarrow> t))"
    by (simp add: coalesce_def json_get_text_def split: option.splits json_value.splits)
  show ?thesis
    using e one s' by (simp add: name)
qed

text \<open>
  An identity that signs up with an email and no \<^verbatim>\<open>full_name\<close> gets a profile with the empty
  name.
\<close>

theorem new_identity_gets_one_profile_witness:
  "create_identity 300 demo_new_user demo_db
     = Inr (demo_db\<lparr>auth_users := auth_users demo_db @ [demo_new_user],
                    profiles := profiles demo_db @ [demo_new_profile]\<rparr>)
   \<and> map_of (the (au_raw_user_meta_data demo_new_user)) ''full_name'' = None
   \<and> filter (\<lambda>x. pf_id x = au_id demo_new_user)
        (profiles (demo_db\<lparr>auth_users := auth_users demo_db @ [demo_new_user],
                    profiles := profiles demo_db @ [demo_new_profile]\<rparr>)) = [demo_new_profile]
   \<and> pf_id demo_new_profile = au_id demo_new_user
   \<and> Some (pf_email demo_new_profile) = au_email demo_new_user
   \<and> pf_full_name demo_new_profile = []"
proof -
  from new_identity_gets_one_profile[OF demo_create_identity]
  have "filter (\<lambda>x. pf_id x = au_id demo_new_user)
        (profiles (demo_db\<lparr>auth_users := auth_users demo_db @ [demo_new_user],
                    profiles := profiles demo_db @ [demo_new_profile]\<rparr>)) = [demo_new_profile]"
    by auto
  then show ?thesis
    using demo_create_identity by (simp add: demo_new_user_def demo_new_profile_def)
qed

section \<open>Deleting a warehouse or a product that the ledger references\<close>

lemma first_error_Some:
  "first_error es = Some e \<Longrightarrow> Some e \<in> set es"
  by (induction es rule: first_error.induct) auto

lemma first_error_None: "(first_error es = None) = (\<forall>x \<in> set es. x = None)"
  by (induction es rule: first_error.induct) auto

lemma warehouses_referenced_error:
  "warehouses_referenced s w = Some e \<Longrightarrow> \<exists>k. e = ForeignKeyViolation k"
  by (auto simp add: warehouses_referenced_def violates_def split: if_splits)

lemma products_referenced_error:
  "products_referenced s p = Some e \<Longrightarrow> \<exists>k. e = ForeignKeyViolation k"
  by (auto simp add: products_referenced_def violates_def split: if_splits)

lemma warehouses_referenced_by_movement:
  "m \<in> set (stock_movements s) \<Longrightarrow> sm_warehouse_id m = wh_id w \<Longrightarrow> warehouses_referenced s w \<noteq> None"
  by (auto simp add: warehouses_referenced_def violates_def list_ex_iff)

lemma products_referenced_by_movement:
  "m \<in> set (stock_movements s) \<Longrightarrow> sm_product_id m = pd_id p \<Longrightarrow> products_referenced s p \<noteq> None"
  by (auto simp add: products_referenced_def violates_def list_ex_iff)

lemma delete_warehouses_rows_restrict:
  assumes "w \<in> set (warehouses s)" "tgt w" "m \<in> set (stock_movements s)" "sm_warehouse_id m = wh_id w"
  shows "\<exists>k. delete_warehouses_rows tgt s = Inl (ForeignKeyViolation k)"
proof -
  let ?es = "map (warehouses_referenced s) (filter tgt (warehouses s))"
  have "warehouses_referenced s w \<in> set ?es" using assms(1,2) by simp
  then have "first_error ?es \<noteq> None"
    using warehouses_referenced_by_movement[OF assms(3,4)] first_error_None[of ?es] by metis
  then obtain e where e: "first_error ?es = Some e" by auto
  from first_error_Some[OF e] obtain x where "warehouses_referenced s x = Some e" by auto
  from warehouses_referenced_error[OF this] obtain k where "e = ForeignKeyViolation k" ..
  with e show ?thesis by (simp add: delete_warehouses_rows_def)
qed

lemma delete_products_rows_restrict:
  assumes "p \<in> set (products s)" "tgt p" "m \<in> set (stock_movements s)" "sm_product_id m = pd_id p"
  shows "\<exists>k. delete_products_rows tgt s = Inl (ForeignKeyViolation k)"
proof -
  let ?es = "map (products_referenced s) (filter tgt (products s))"
  have "products_referenced s p \<in> set ?es" using assms(1,2) by simp
  then have "first_error ?es \<noteq> None"
    using products_referenced_by_movement[OF assms(3,4)] first_error_None[of ?es] by metis
  then obtain e where e: "first_error ?es = Some e" by auto
  from first_error_Some[OF e] obtain x where "products_referenced s x = Some e" by auto
  from products_referenced_error[OF this] obtain k where "e = ForeignKeyViolation k" ..
  with e show ?thesis by (simp add: delete_products_rows_def)
qed

lemma no_delete_policy_on_warehouses_or_products:
  "delete_warehouses c wh s = Inr s" "delete_products c wh' s = Inr s"
  by (simp_all add: delete_warehouses_def delete_warehouses_rows_def delete_products_def
      delete_products_rows_def rls_target_def using_passes_def warehouses_policies_def
      products_policies_def policy_applies_def)

text \<open>
  Claim C5. A \<^verbatim>\<open>DELETE\<close> that targets a warehouse, or a product, referenced by a stock movement
  fails with a foreign-key violation (\<^verbatim>\<open>ON DELETE RESTRICT\<close>) and leaves the database as it
  was. That is the statement as the table's owner runs it; issued through the data API it
  finds no \<^verbatim>\<open>DELETE\<close> policy on either table and leaves the database as it was, too.
\<close>

theorem referenced_warehouse_or_product_is_not_deleted:
  "(w \<in> set (warehouses s) \<and> tgt w \<and> m \<in> set (stock_movements s) \<and> sm_warehouse_id m = wh_id w \<longrightarrow>
      (\<exists>k. delete_warehouses_rows tgt s = Inl (ForeignKeyViolation k))
      \<and> state_after s (delete_warehouses_rows tgt s) = s)
   \<and> (p \<in> set (products s) \<and> tgt' p \<and> m' \<in> set (stock_movements s) \<and> sm_product_id m' = pd_id p \<longrightarrow>
      (\<exists>k. delete_products_rows tgt' s = Inl (ForeignKeyViolation k))
      \<and> state_after s (delete_products_rows tgt' s) = s)
   \<and> state_after s (delete_warehouses c wh s) = s
   \<and> state_after s (delete_products c wh' s) = s"
proof -
  have 1: "state_after s (delete_warehouses_rows tgt s) = s"
    if "\<exists>k. delete_warehouses_rows tgt s = Inl (ForeignKeyViolation k)"
    using that by (auto simp add: state_after_def)
  have 2: "state_after s (delete_products_rows tgt' s) = s"
    if "\<exists>k. delete_products_rows tgt' s = Inl (ForeignKeyViolation k)"
    using that by (auto simp add: state_after_def)
  show ?thesis
    using delete_warehouses_rows_restrict[of w s tgt m] delete_products_rows_restrict[of p s tgt' m'] 1 2
    by (simp add: no_delete_policy_on_warehouses_or_products state_after_def)
qed

theorem referenced_warehouse_or_product_is_not_deleted_witness:
  "demo_warehouse \<in> set (warehouses demo_db)
   \<and> demo_receipt_movement \<in> set (stock_movements demo_db)
   \<and> sm_warehouse_id demo_receipt_movement = wh_id demo_warehouse
   \<and> delete_warehouses_rows (\<lambda>w. wh_id w = 21) demo_db
       = Inl (ForeignKeyViolation ''receipts_warehouse_id_fkey'')
   \<and> demo_warehouse \<in> set (warehouses (state_after demo_db (delete_warehouses_rows (\<lambda>w. wh_id w = 21) demo_db)))
   \<and> demo_product \<in> set (products demo_db)
   \<and> sm_product_id demo_receipt_movement = pd_id demo_product
   \<and> delete_products_rows (\<lambda>p. pd_id p = 31) demo_db
       = Inl (ForeignKeyViolation ''receipt_lines_product_id_fkey'')
   \<and> demo_product \<in> set (products (state_after demo_db (delete_products_rows (\<lambda>p. pd_id p = 31) demo_db)))
   \<and> state_after demo_db (delete_warehouses demo_admin (\<lambda>w. wh_id w = 21) demo_db) = demo_db
   \<and> state_after demo_db (delete_products demo_admin (\<lambda>p. pd_id p = 31) demo_db) = demo_db"
proof -
  have a: "demo_warehouse \<in> set (warehouses demo_db)" "demo_receipt_movement \<in> set (stock_movements demo_db)"
    "demo_product \<in> set (products demo_db)"
    by (simp_all add: demo_db_tables)
  have b: "sm_warehouse_id demo_receipt_movement = wh_id demo_warehouse"
    "sm_product_id demo_receipt_movement = pd_id demo_product"
    "wh_id demo_warehouse = 21" "pd_id demo_product = 31"
    by (simp_all add: demo_receipt_movement_def demo_warehouse_def demo_product_def)
  have c: "delete_warehouses_rows (\<lambda>w. wh_id w = 21) demo_db
       = Inl (ForeignKeyViolation ''receipts_warehouse_id_fkey'')"
    by (simp add: delete_warehouses_rows_def warehouses_referenced_def violates_def demo_db_def
        demo_warehouse_def)
  have d: "delete_products_rows (\<lambda>p. pd_id p = 31) demo_db
       = Inl (ForeignKeyViolation ''receipt_lines_product_id_fkey'')"
    by (simp add: delete_products_rows_def products_referenced_def violates_def demo_db_def
        demo_product_def demo_receipt_line_def)
  from referenced_warehouse_or_product_is_not_deleted[of demo_warehouse demo_db "\<lambda>w. wh_id w = 21"
      demo_receipt_movement demo_product "\<lambda>p. pd_id p = 31" demo_receipt_movement demo_admin
      "\<lambda>w. wh_id w = 21" "\<lambda>p. pd_id p = 31"] a b
  have e: "state_after demo_db (delete_warehouses_rows (\<lambda>w. wh_id w = 21) demo_db) = demo_db"
     "state_after demo_db (delete_products_rows (\<lambda>p. pd_id p = 31) demo_db) = demo_db"
     "state_after demo_db (delete_warehouses demo_admin (\<lambda>w. wh_id w = 21) demo_db) = demo_db"
     "state_after demo_db (delete_products demo_admin (\<lambda>p. pd_id p = 31) demo_db) = demo_db"
    by simp_all
  show ?thesis
    unfolding e using a b c d by simp
qed


section \<open>Two receipts submitted in the same millisecond\<close>

lemma receipts_insert_check:
  "rls_insert_check receipts_policies c s r = (auth_uid c \<noteq> None)"
  by (simp add: rls_insert_check_def check_passes_def receipts_policies_def policy_applies_def
      sql_is_not_null_def)

lemma insert_receipts_row_appends:
  "insert_receipts_row r s = Inr s' \<Longrightarrow> s' = s\<lparr>receipts := receipts s @ [r]\<rparr>"
  by (auto simp add: insert_receipts_row_def split: option.splits)

lemma insert_receipts_row_duplicate_reference:
  assumes "x \<in> set (receipts s)" "rc_reference x = rc_reference r"
  shows "\<exists>k. insert_receipts_row r s = Inl (UniqueViolation k)"
proof -
  have "list_ex (\<lambda>x. rc_reference x = rc_reference r) (receipts s)"
    using assms by (auto simp add: list_ex_iff)
  then show ?thesis
    by (simp add: insert_receipts_row_def violates_def)
qed

lemma Number_toString_demo: "Number_toString 1763786702000 = ''1763786702000''"
  by (simp add: Number_toString.simps)

lemma demo_first_submit:
  "Receipts_handleSubmit demo_staff 1763786702000 52 400 demo_form demo_db
     = Inr (demo_db\<lparr>receipts := receipts demo_db @ [demo_submitted_receipt]\<rparr>)"
  by (simp add: Receipts_handleSubmit_def Let_def insert_receipts_def receipts_insert_check
      insert_receipts_row_def violates_def Number_toString_demo demo_form_def
      demo_submitted_receipt_def demo_db_def demo_warehouse_def)
     (simp add: demo_staff_def auth_uid_def)

text \<open>
  Claim C7. Two submissions of the receipt form at the same value of \<^verbatim>\<open>Date.now()\<close> carry the
  same reference. When the first has been committed, the second fails and leaves the
  database, the first receipt's row included, as it was; and when the second caller is
  signed in and has selected a warehouse, the failure is a uniqueness violation.
\<close>

theorem same_reference_second_receipt_fails:
  assumes "Receipts_handleSubmit c1 t id1 now1 fd1 s = Inr s1"
  shows "\<exists>r1. receipts s1 = receipts s @ [r1]
           \<and> rc_id r1 = id1
           \<and> rc_reference r1 = ''RCP-'' @ Number_toString t
           \<and> isl (Receipts_handleSubmit c2 t id2 now2 fd2 s1)
           \<and> state_after s1 (Receipts_handleSubmit c2 t id2 now2 fd2 s1) = s1
           \<and> (auth_uid c2 \<noteq> None \<and> fd_warehouse_id fd2 \<noteq> None \<longrightarrow>
                (\<exists>k. Receipts_handleSubmit c2 t id2 now2 fd2 s1 = Inl (UniqueViolation k)))"
proof -
  from assms obtain w1 where w1: "fd_warehouse_id fd1 = Some w1"
    by (auto simp add: Receipts_handleSubmit_def Let_def split: option.splits)
  define r1 where "r1 = \<lparr>rc_id = id1, rc_reference = ''RCP-'' @ Number_toString t,
             rc_warehouse_id = w1, rc_supplier_name = fd_supplier_name fd1, rc_status = Draft,
             rc_scheduled_date = fd_scheduled_date fd1, rc_received_date = None, rc_notes = None,
             rc_created_by = None, rc_created_at = now1, rc_updated_at = now1\<rparr>"
  from assms w1 have "insert_receipts_row r1 s = Inr s1"
    by (auto simp add: Receipts_handleSubmit_def Let_def insert_receipts_def r1_def split: if_splits)
  from insert_receipts_row_appends[OF this] have s1: "receipts s1 = receipts s @ [r1]" by simp
  have ref: "rc_reference r1 = ''RCP-'' @ Number_toString t" "rc_id r1 = id1" by (simp_all add: r1_def)
  have mem: "r1 \<in> set (receipts s1)" by (simp add: s1)
  have dup: "\<exists>k. insert_receipts_row r s1 = Inl (UniqueViolation k)"
    if "rc_reference r = ''RCP-'' @ Number_toString t" for r
    using insert_receipts_row_duplicate_reference[OF mem, of r] that ref by simp
  have fails: "isl (Receipts_handleSubmit c2 t id2 now2 fd2 s1)"
  proof (cases "fd_warehouse_id fd2")
    case None
    then show ?thesis by (simp add: Receipts_handleSubmit_def Let_def)
  next
    case (Some w2)
    show ?thesis
    proof (cases "auth_uid c2 = None")
      case True
      then show ?thesis by (simp add: Receipts_handleSubmit_def Let_def Some insert_receipts_def receipts_insert_check)
    next
      case False
      with dup[of "\<lparr>rc_id = id2, rc_reference = ''RCP-'' @ Number_toString t,
             rc_warehouse_id = w2, rc_supplier_name = fd_supplier_name fd2, rc_status = Draft,
             rc_scheduled_date = fd_scheduled_date fd2, rc_received_date = None, rc_notes = None,
             rc_created_by = None, rc_created_at = now2, rc_updated_at = now2\<rparr>"]
      show ?thesis
        by (auto simp add: Receipts_handleSubmit_def Let_def Some insert_receipts_def receipts_insert_check)
    qed
  qed
  then have same: "state_after s1 (Receipts_handleSubmit c2 t id2 now2 fd2 s1) = s1"
    by (cases "Receipts_handleSubmit c2 t id2 now2 fd2 s1") (simp_all add: state_after_def)
  have uniq: "\<exists>k. Receipts_handleSubmit c2 t id2 now2 fd2 s1 = Inl (UniqueViolation k)"
    if "auth_uid c2 \<noteq> None" "fd_warehouse_id fd2 \<noteq> None"
  proof -
    from that(2) obtain w2 where w2: "fd_warehouse_id fd2 = Some w2" by auto
    from dup[of "\<lparr>rc_id = id2, rc_reference = ''RCP-'' @ Number_toString t,
             rc_warehouse_id = w2, rc_supplier_name = fd_supplier_name fd2, rc_status = Draft,
             rc_scheduled_date = fd_scheduled_date fd2, rc_received_date = None, rc_notes = None,
             rc_created_by = None, rc_created_at = now2, rc_updated_at = now2\<rparr>"] that(1)
    show ?thesis
      by (auto simp add: Receipts_handleSubmit_def Let_def w2 insert_receipts_def receipts_insert_check)
  qed
  show ?thesis
    using s1 ref fails same uniq by blast
qed

text \<open>
  In the example the member of staff submits first and the administrator second, in the
  same millisecond: the administrator's insert violates \<^verbatim>\<open>receipts_reference_key\<close>.
\<close>

theorem same_reference_second_receipt_fails_witness:
  "Receipts_handleSubmit demo_staff 1763786702000 52 400 demo_form demo_db
     = Inr (demo_db\<lparr>receipts := receipts demo_db @ [demo_submitted_receipt]\<rparr>)
   \<and> Receipts_handleSubmit demo_admin 1763786702000 53 401 demo_form
        (demo_db\<lparr>receipts := receipts demo_db @ [demo_submitted_receipt]\<rparr>)
     = Inl (UniqueViolation ''receipts_reference_key'')
   \<and> state_after (demo_db\<lparr>receipts := receipts demo_db @ [demo_submitted_receipt]\<rparr>)
        (Receipts_handleSubmit demo_admin 1763786702000 53 401 demo_form
          (demo_db\<lparr>receipts := receipts demo_db @ [demo_submitted_receipt]\<rparr>))
     = demo_db\<lparr>receipts := receipts demo_db @ [demo_submitted_receipt]\<rparr>"
proof -
  let ?s1 = "demo_db\<lparr>receipts := receipts demo_db @ [demo_submitted_receipt]\<rparr>"
  have 2: "Receipts_handleSubmit demo_admin 1763786702000 53 401 demo_form ?s1
     = Inl (UniqueViolation ''receipts_reference_key'')"
    by (simp add: Receipts_handleSubmit_def Let_def insert_receipts_def receipts_insert_check
      insert_receipts_row_def violates_def Number_toString_demo demo_form_def
      demo_submitted_receipt_def demo_db_def demo_warehouse_def)
       (simp add: demo_admin_def auth_uid_def)
  from same_reference_second_receipt_fails[OF demo_first_submit, of demo_admin 53 401 demo_form]
  have "state_after ?s1 (Receipts_handleSubmit demo_admin 1763786702000 53 401 demo_form ?s1) = ?s1"
    by blast
  with demo_first_submit 2 show ?thesis by simp
qed


section \<open>Updating the lines of a document\<close>

lemma lines_update_policies:
  assumes "pg_role c = authenticated" "auth_uid c = Some u"
  shows "rls_target receipt_lines_policies FOR_UPDATE c s wh = wh"
    and "rls_update_check receipt_lines_policies c s l"
    and "rls_target delivery_lines_policies FOR_UPDATE c s wh' = wh'"
    and "rls_update_check delivery_lines_policies c s l'"
  using assms
  by (simp_all add: fun_eq_iff rls_target_def rls_update_check_def using_passes_def check_passes_def
      receipt_lines_policies_def delivery_lines_policies_def policy_applies_def
      sql_is_not_null_def sql_true_def)

lemma sql_or_True: "(sql_or a b = Some True) = (a = Some True \<or> b = Some True)"
  by (simp add: sql_or_def)

lemma sql_eq_True: "(sql_eq a b = Some True) = (a \<noteq> None \<and> a = b)"
  by (auto simp add: sql_eq_def split: option.splits)

lemma documents_update_policies:
  assumes "pg_role c = authenticated" "auth_uid c = Some u"
  shows "rls_target receipts_policies FOR_UPDATE c s wh r =
           (wh r \<and> (rc_created_by r = Some u \<or> has_role s (Some u) Admin = Some True
                     \<or> has_role s (Some u) Manager = Some True))"
    and "rls_target deliveries_policies FOR_UPDATE c s wh' d =
           (wh' d \<and> (dv_created_by d = Some u \<or> has_role s (Some u) Admin = Some True
                     \<or> has_role s (Some u) Manager = Some True))"
  using assms
  by (auto simp add: rls_target_def using_passes_def receipts_policies_def deliveries_policies_def
      policy_applies_def sql_true_def sql_or_True sql_eq_True)

lemma demo_staff_caller: "pg_role demo_staff = authenticated" "auth_uid demo_staff = Some 2"
  by (simp_all add: demo_staff_def auth_uid_def)

lemma demo_staff_roles:
  "has_role demo_db (Some 2) Admin = Some False" "has_role demo_db (Some 2) Manager = Some False"
  by (simp_all add: has_role_def demo_db_tables sql_and_def sql_eq_def demo_staff_role_def)

text \<open>
  Claim C9. For an authenticated identity, whatever its role and whoever created the parent
  document, row-level security lets an \<^verbatim>\<open>UPDATE\<close> of \<^verbatim>\<open>receipt_lines\<close> or \<^verbatim>\<open>delivery_lines\<close>
  through on every row and every new version: the statement is the statement without
  policies. A receipt or a delivery is a target of the identity's \<^verbatim>\<open>UPDATE\<close> only when the
  identity created it or holds the admin or the manager role.
\<close>

theorem any_identity_may_update_any_line:
  assumes "pg_role c = authenticated" and "auth_uid c = Some u"
  shows "update_receipt_lines c wh g s = update_receipt_lines_rows wh g s
         \<and> update_delivery_lines c wh' g' s = update_delivery_lines_rows wh' g' s
         \<and> rls_target receipts_policies FOR_UPDATE c s whr r =
           (whr r \<and> (rc_created_by r = Some u \<or> has_role s (Some u) Admin = Some True
                      \<or> has_role s (Some u) Manager = Some True))
         \<and> rls_target deliveries_policies FOR_UPDATE c s whd d =
           (whd d \<and> (dv_created_by d = Some u \<or> has_role s (Some u) Admin = Some True
                      \<or> has_role s (Some u) Manager = Some True))"
  using documents_update_policies[OF assms]
  by (simp add: update_receipt_lines_def update_delivery_lines_def lines_update_policies[OF assms]
      list_all_iff)

text \<open>
  The member of staff of the example holds neither role and did not create receipt 51; it
  updates the receipt's line, and the receipt itself is no target of its update.
\<close>

theorem any_identity_may_update_any_line_witness:
  "pg_role demo_staff = authenticated
   \<and> auth_uid demo_staff = Some 2
   \<and> rl_receipt_id demo_receipt_line = 51
   \<and> map (\<lambda>r. (rc_id r, rc_created_by r)) (receipts demo_db) = [(51, Some 1)]
   \<and> has_role demo_db (Some 2) Admin = Some False
   \<and> has_role demo_db (Some 2) Manager = Some False
   \<and> update_receipt_lines demo_staff (\<lambda>l. rl_id l = 61) (\<lambda>l. l\<lparr>rl_received_quantity := Some 5000\<rparr>) demo_db
      = Inr (demo_db\<lparr>receipt_lines := [demo_receipt_line\<lparr>rl_received_quantity := Some 5000\<rparr>]\<rparr>)
   \<and> rls_target receipts_policies FOR_UPDATE demo_staff demo_db (\<lambda>r. rc_id r = 51) (hd (receipts demo_db)) = False"
proof -
  note inst = any_identity_may_update_any_line[OF demo_staff_caller,
      of "\<lambda>l. rl_id l = 61" "\<lambda>l. l\<lparr>rl_received_quantity := Some 5000\<rparr>" demo_db
         _ _ "\<lambda>r. rc_id r = 51" "hd (receipts demo_db)"]
  have rows: "update_receipt_lines_rows (\<lambda>l. rl_id l = 61) (\<lambda>l. l\<lparr>rl_received_quantity := Some 5000\<rparr>) demo_db
      = Inr (demo_db\<lparr>receipt_lines := [demo_receipt_line\<lparr>rl_received_quantity := Some 5000\<rparr>]\<rparr>)"
    by (simp add: update_receipt_lines_rows_def receipt_lines_constraints_def new_versions_def
        updated_rows_def unique_after_def violates_def numeric_10_2_fits_def demo_db_def
        demo_receipt_line_def demo_product_def)
  have r: "map (\<lambda>r. (rc_id r, rc_created_by r)) (receipts demo_db) = [(51, Some 1)]"
    "rc_created_by (hd (receipts demo_db)) = Some 1"
    by (simp_all add: demo_db_def)
  have "rls_target receipts_policies FOR_UPDATE demo_staff demo_db (\<lambda>r. rc_id r = 51) (hd (receipts demo_db)) = False"
    using inst by (simp add: r demo_staff_roles)
  then show ?thesis
    using inst rows r demo_staff_caller demo_staff_roles by (simp add: demo_receipt_line_def)
qed


section \<open>The dashboard's low-stock figure\<close>

text \<open>
  The constant of the model is the binary64 value nearest to 15/100: it has 53 significant
  bits and lies \<open>20 / 100\<close> of a unit in the last place below \<open>15 / 100\<close>, its successor
  \<open>80 / 100\<close> above.
\<close>

lemma double_0_15_nearest:
  "2 ^ 52 \<le> double_0_15 \<and> double_0_15 < 2 ^ 53
   \<and> 15 * 2 ^ 55 - 100 * double_0_15 = 20 \<and> 100 * (double_0_15 + 1) - 15 * 2 ^ 55 = 80"
  by (simp add: double_0_15_def)

lemma bit_length_bounds: "0 < n \<Longrightarrow> 2 ^ (bit_length n - 1) \<le> n \<and> n < 2 ^ bit_length n"
proof (induction n rule: bit_length.induct)
  case (1 n)
  show ?case
  proof (cases "n div 2 = 0")
    case True
    with 1 have "n = 1" by (simp add: div_eq_0_iff)
    then show ?thesis by (simp add: bit_length.simps)
  next
    case False
    then have pos: "0 < n div 2" by simp
    from 1 have n0: "n \<noteq> 0" by simp
    from 1(1)[OF n0 pos] have ih: "2 ^ (bit_length (n div 2) - 1) \<le> n div 2"
      "n div 2 < 2 ^ bit_length (n div 2)" by simp_all
    have bl: "bit_length n = Suc (bit_length (n div 2))" using n0 by (simp add: bit_length.simps[of n])
    have blpos: "0 < bit_length (n div 2)" using pos by (simp add: bit_length.simps[of "n div 2"])
    then obtain m where m: "bit_length (n div 2) = Suc m" by (cases "bit_length (n div 2)") auto
    from ih m have "2 ^ m \<le> n div 2" "n div 2 < 2 * 2 ^ m" by simp_all
    then have "2 * 2 ^ m \<le> n" "n < 2 * (2 * 2 ^ m)" by linarith+
    then show ?thesis by (simp add: bl m)
  qed
qed

lemma bit_length_le: "n < 2 ^ w \<Longrightarrow> bit_length n \<le> w"
proof (cases "n = 0")
  case True
  then show ?thesis by (simp add: bit_length.simps)
next
  case False
  assume "n < 2 ^ w"
  moreover have "2 ^ (bit_length n - 1) \<le> n" using False bit_length_bounds[of n] by simp
  ultimately have "(2::nat) ^ (bit_length n - 1) < 2 ^ w" by linarith
  then have "bit_length n - 1 < w" by simp
  then show ?thesis by simp
qed

lemma round_to_53_bits_near:
  assumes "53 < bit_length N"
  defines "h \<equiv> (2::nat) ^ (bit_length N - 54)"
  shows "(2 * h) dvd round_to_53_bits N"
    and "N \<le> round_to_53_bits N + h"
    and "round_to_53_bits N \<le> N + h"
proof -
  define sh where "sh = bit_length N - 53"
  have sh: "sh - 1 = bit_length N - 54" "0 < sh" using assms(1) by (simp_all add: sh_def)
  have P: "(2::nat) ^ sh = 2 * h"
  proof -
    have "sh = Suc (bit_length N - 54)" using assms(1) by (simp add: sh_def)
    then show ?thesis by (simp add: h_def)
  qed
  define q where "q = N div (2 * h)"
  define r where "r = N mod (2 * h)"
  have N: "N = q * (2 * h) + r" unfolding q_def r_def by (rule div_mult_mod_eq[symmetric])
  have hpos: "0 < h" by (simp add: h_def)
  have r: "r < 2 * h" using hpos by (simp add: r_def)
  have R: "round_to_53_bits N = (if h < r \<or> (r = h \<and> odd q) then q + 1 else q) * (2 * h)"
    using assms(1) P sh
    by (simp add: round_to_53_bits_def Let_def sh_def[symmetric] q_def r_def h_def)
  show "(2 * h) dvd round_to_53_bits N" by (simp add: R)
  have "N \<le> (if h < r \<or> (r = h \<and> odd q) then q + 1 else q) * (2 * h) + h"
    using N r by (auto simp add: algebra_simps)
  then show "N \<le> round_to_53_bits N + h" by (simp only: R)
  have "(if h < r \<or> (r = h \<and> odd q) then q + 1 else q) * (2 * h) \<le> N + h"
    using N r by (auto simp add: algebra_simps)
  then show "round_to_53_bits N \<le> N + h" by (simp only: R)
qed

lemma floor_times_0_15:
  assumes "n < 2 ^ 50"
  shows "Math_floor (times_0_15 n) = 15 * n div 100"
proof -
  define N where "N = n * 5404319552844595"
  define D :: nat where "D = 36028797018963968"
  define k where "k = 15 * n div 100"
  define j where "j = 15 * n mod 100"
  have kj: "15 * n = 100 * k + j" "j < 100"
    unfolding k_def j_def by (rule mult_div_mod_eq[symmetric]) simp
  have j5: "5 dvd j" 
  proof -
    have "5 dvd 15 * n" by simp
    moreover have "5 dvd 100 * k" by simp
    ultimately show ?thesis using kj(1) by (metis dvd_add_right_iff)
  qed
  have N20: "100 * N + 20 * n = 100 * k * D + j * D"
  proof -
    have "100 * N + 20 * n = (15 * n) * D" by (simp add: N_def D_def)
    also have "\<dots> = (100 * k + j) * D" by (simp only: kj(1))
    also have "\<dots> = 100 * k * D + j * D" by (simp add: algebra_simps)
    finally show ?thesis .
  qed
  have nb: "n < 1125899906842624" using assms by simp
  show ?thesis
  proof (cases "n \<le> 1")
    case True
    then have "n = 0 \<or> n = 1" by auto
    then show ?thesis
    proof
      assume "n = 0" then show ?thesis
        by (simp add: Math_floor_def times_0_15_def round_to_53_bits_def double_0_15_def bit_length.simps)
    next
      assume n1: "n = 1"
      have "bit_length 5404319552844595 \<le> 53" by (rule bit_length_le) simp
      then show ?thesis using n1
        by (simp add: Math_floor_def times_0_15_def round_to_53_bits_def double_0_15_def)
    qed
  next
    case False
    then have n2: "2 \<le> n" by simp
    have Nge: "2 ^ 53 \<le> N" using n2 by (simp add: N_def)
    have Npos: "0 < N" using Nge by (cases "N = 0") simp_all
    have bl: "53 < bit_length N"
    proof (rule ccontr)
      assume "\<not> 53 < bit_length N"
      then have "bit_length N \<le> 53" by simp
      then have "(2::nat) ^ bit_length N \<le> 2 ^ 53" by (rule power_increasing) simp
      with bit_length_bounds[OF Npos] Nge show False by linarith
    qed
    define h where "h = (2::nat) ^ (bit_length N - 54)"
    define R where "R = round_to_53_bits N"
    note near = round_to_53_bits_near[OF bl, folded h_def R_def]
    have p53: "(2::nat) ^ 53 = 9007199254740992" and p54: "(2::nat) ^ 54 = 18014398509481984"
      and p50: "(2::nat) ^ 50 = 1125899906842624" and p55: "(2::nat) ^ 55 = 36028797018963968"
      by simp_all
    have "bit_length N - 1 = 53 + (bit_length N - 54)" using bl by simp
    then have "(2::nat) ^ (bit_length N - 1) = 2 ^ 53 * 2 ^ (bit_length N - 54)"
      by (simp only: power_add)
    then have e1: "(2::nat) ^ (bit_length N - 1) = 9007199254740992 * h"
      by (simp only: h_def p53)
    have "bit_length N = 54 + (bit_length N - 54)" using bl by simp
    then have "(2::nat) ^ bit_length N = 2 ^ (54 + (bit_length N - 54))" by simp
    then have "(2::nat) ^ bit_length N = 2 ^ 54 * 2 ^ (bit_length N - 54)"
      by (simp only: power_add)
    then have e2: "(2::nat) ^ bit_length N = 18014398509481984 * h"
      by (simp only: h_def p54)
    have hN: "9007199254740992 * h \<le> N" "N < 18014398509481984 * h"
      using bit_length_bounds[OF Npos] by (simp_all only: e1 e2)
    have hb: "h < 1125899906842624"
    proof -
      have "N < 1125899906842624 * 5404319552844595" using nb by (simp add: N_def)
      with hN(1) show ?thesis by linarith
    qed
    have upper: "R < (k + 1) * D"
    proof -
      have "100 * R \<le> 100 * N + 100 * h" using near(3) by simp
      also have "\<dots> \<le> 100 * k * D + j * D + 100 * h" using N20 by simp
      also have "\<dots> \<le> 100 * k * D + 95 * D + 100 * h" using kj(2) j5 by (simp add: D_def) presburger
      also have "\<dots> < 100 * k * D + 100 * D" using hb by (simp add: D_def)
      finally show ?thesis by (simp add: algebra_simps)
    qed
    have lower: "k * D \<le> R"
    proof (cases "j = 0")
      case False
      then have "5 \<le> j" using j5 by (auto elim: dvdE)
      then have "100 * k * D + 5 * D \<le> 100 * N + 20 * n" using N20 by simp
      moreover have "20 * n + 100 * h \<le> 5 * D" using nb hb by (simp add: D_def)
      ultimately have "100 * k * D + 100 * h \<le> 100 * N" by linarith
      also have "\<dots> \<le> 100 * R + 100 * h" using near(2) by simp
      finally show ?thesis by simp
    next
      case True
      have N0: "100 * N + 20 * n = 100 * k * D" using N20 True by simp
      show ?thesis
      proof (rule ccontr)
        assume "\<not> k * D \<le> R"
        then have lt: "R < k * D" by simp
        have "bit_length N - 54 < 50"
        proof (rule ccontr)
          assume "\<not> bit_length N - 54 < 50"
          then have "50 \<le> bit_length N - 54" by simp
          then have "(2::nat) ^ 50 \<le> 2 ^ (bit_length N - 54)" by (rule power_increasing) simp
          then have "1125899906842624 \<le> h" by (simp only: h_def[symmetric] p50)
          then show False using hb by linarith
        qed
        then have "Suc (bit_length N - 54) \<le> 55" by simp
        then have "(2::nat) ^ Suc (bit_length N - 54) dvd 2 ^ 55" by (rule le_imp_power_dvd)
        then have "2 * h dvd D" by (simp only: power_Suc h_def[symmetric] p55 D_def)
        then have d1: "2 * h dvd k * D" by simp
        from near(1) obtain a where a: "R = 2 * h * a" by (auto elim: dvdE)
        from d1 obtain b where b: "k * D = 2 * h * b" by (auto elim: dvdE)
        have hpos: "0 < h" by (simp add: h_def)
        from lt a b have "a < b" using hpos by simp
        then have "a + 1 \<le> b" by simp
        then have "2 * h * (a + 1) \<le> 2 * h * b" by (rule mult_le_mono2)
        then have "R + 2 * h \<le> k * D" using a b by (simp add: algebra_simps)
        then have "100 * R + 200 * h \<le> 100 * k * D" by simp
        moreover have "100 * N \<le> 100 * R + 100 * h" using near(2) by simp
        ultimately have "100 * N + 100 * h \<le> 100 * k * D" by linarith
        with N0 have "100 * h \<le> 20 * n" by linarith
        then have h5: "5 * h \<le> n" by simp
        have "N < 18014398509481984 * h" using hN(2) .
        then have "5 * N < 18014398509481984 * n" using h5 by linarith
        then show False using n2 by (simp add: N_def)
      qed
    qed
    have "R div D = k"
      using lower upper by (intro div_nat_eqI) (simp_all add: algebra_simps)
    then show ?thesis
      by (simp add: Math_floor_def times_0_15_def double_0_15_def R_def N_def D_def k_def)
  qed
qed


lemma products_select_using:
  "using_passes products_policies FOR_SELECT c s r = (pg_role c = authenticated)"
  by (auto simp add: using_passes_def products_policies_def policy_applies_def sql_true_def)

lemma count_active_products_eq:
  "count_active_products c s =
     Some (if pg_role c = authenticated then length (filter pd_is_active (products s)) else 0)"
  by (simp add: count_active_products_def rls_select_def products_select_using)

lemma lowStockProducts_eq:
  "lowStockProducts (fetchStats c s) =
     Math_floor (times_0_15 (if pg_role c = authenticated
                             then length (filter pd_is_active (products s)) else 0))"
  by (simp add: fetchStats_def Let_def count_active_products_eq or_zero_def)

text \<open>
  Claim C10. For a signed-in caller the low-stock figure is the floor of 15 hundredths of
  the number of active products: the rounding of the binary64 product never carries the
  result across an integer (for fewer than \<open>2 ^ 50\<close> products). The figure is the same
  whatever the ledger holds and whatever the products' reorder levels are.
\<close>

theorem low_stock_is_floor_of_15_percent:
  assumes "pg_role c = authenticated"
    and "length (filter pd_is_active (products s)) < 2 ^ 50"
  shows "lowStockProducts (fetchStats c s) = 15 * length (filter pd_is_active (products s)) div 100
         \<and> lowStockProducts
             (fetchStats c (s\<lparr>stock_movements := ms,
                               products := map (pd_reorder_level_update f) (products s)\<rparr>))
           = lowStockProducts (fetchStats c s)"
proof -
  have "filter pd_is_active (map (pd_reorder_level_update f) (products s))
      = map (pd_reorder_level_update f) (filter pd_is_active (products s))"
    by (simp add: filter_map comp_def)
  then have "length (filter pd_is_active (map (pd_reorder_level_update f) (products s)))
      = length (filter pd_is_active (products s))"
    by simp
  then show ?thesis
    using assms floor_times_0_15[OF assms(2)] by (simp add: lowStockProducts_eq)
qed

text \<open>
  With seven active products and one inactive product the figure is 1, and stays 1 when the
  ledger is emptied and every reorder level is raised.
\<close>

theorem low_stock_is_floor_of_15_percent_witness:
  "pg_role demo_staff = authenticated
   \<and> length (filter pd_is_active (products demo_catalogue)) = 7
   \<and> totalProducts (fetchStats demo_staff demo_catalogue) = 7
   \<and> lowStockProducts (fetchStats demo_staff demo_catalogue) = 1
   \<and> lowStockProducts (fetchStats demo_staff
        (demo_catalogue\<lparr>stock_movements := [],
           products := map (pd_reorder_level_update (\<lambda>_. Some 100000)) (products demo_catalogue)\<rparr>)) = 1"
proof -
  have n: "length (filter pd_is_active (products demo_catalogue)) = 7"
    by (simp add: demo_catalogue_def)
  have a: "pg_role demo_staff = authenticated" by (simp add: demo_staff_def)
  have b: "length (filter pd_is_active (products demo_catalogue)) < 2 ^ 50"
    by (simp only: n) simp
  have t: "totalProducts (fetchStats demo_staff demo_catalogue) = 7"
    by (simp add: fetchStats_def Let_def count_active_products_eq or_zero_def a n)
  from low_stock_is_floor_of_15_percent[OF a b, where ms = "[]" and f = "\<lambda>_. Some 100000"]
  show ?thesis using a n t by simp
qed


end
